theory Spec2Isabelle
  imports Complex_Main "HOL-Library.Sublist"
begin

section \<open>Python values shared by the embedded functions\<close>

text \<open>
  Exceptions of the Python code are values of one datatype. The constructors keep the
  names of the Python exception classes; \<open>ValueError\<close> and \<open>KeyError\<close> carry their
  message. A function that may raise returns \<open>error + 'a\<close>, with \<open>Inl\<close> the exception.
\<close>

datatype error =
    ValueError string
  | KeyError string
  | TypeError
  | AttributeError
  | IndexError
  | IOError
  | CParserError
  | TableMergeError
  | OtherError string

text \<open>
  A string is the list of its characters, taken among the 256 code points below
  U+0100 (ASCII and the Latin-1 supplement).

  \<open>str.lower()\<close> on such a string: the 26 capital letters and the capital letters of
  the supplement (U+00C0 to U+00DE without the multiplication sign U+00D7) are
  mapped to their small letter, which lies 32 code points higher; every other
  character is kept.
\<close>

definition upper_letters :: string where
  "upper_letters =
     ''ABCDEFGHIJKLMNOPQRSTUVWXYZ'' @
     [CHR 0xC0, CHR 0xC1, CHR 0xC2, CHR 0xC3, CHR 0xC4, CHR 0xC5, CHR 0xC6,
      CHR 0xC7, CHR 0xC8, CHR 0xC9, CHR 0xCA, CHR 0xCB, CHR 0xCC, CHR 0xCD,
      CHR 0xCE, CHR 0xCF, CHR 0xD0, CHR 0xD1, CHR 0xD2, CHR 0xD3, CHR 0xD4,
      CHR 0xD5, CHR 0xD6, CHR 0xD8, CHR 0xD9, CHR 0xDA, CHR 0xDB, CHR 0xDC,
      CHR 0xDD, CHR 0xDE]"

definition lower_letters :: string where
  "lower_letters =
     ''abcdefghijklmnopqrstuvwxyz'' @
     [CHR 0xE0, CHR 0xE1, CHR 0xE2, CHR 0xE3, CHR 0xE4, CHR 0xE5, CHR 0xE6,
      CHR 0xE7, CHR 0xE8, CHR 0xE9, CHR 0xEA, CHR 0xEB, CHR 0xEC, CHR 0xED,
      CHR 0xEE, CHR 0xEF, CHR 0xF0, CHR 0xF1, CHR 0xF2, CHR 0xF3, CHR 0xF4,
      CHR 0xF5, CHR 0xF6, CHR 0xF8, CHR 0xF9, CHR 0xFA, CHR 0xFB, CHR 0xFC,
      CHR 0xFD, CHR 0xFE]"

definition lower_char :: "char \<Rightarrow> char" where
  "lower_char c =
     (case map_of (zip upper_letters lower_letters) c of
        Some d \<Rightarrow> d
      | None \<Rightarrow> c)"

definition lower :: "string \<Rightarrow> string" where
  "lower s = map lower_char s"

text \<open>
  White space as \<open>str.isspace\<close>, \<open>str.strip()\<close> and the pattern \<open>\s\<close> see it: the
  blank, the controls U+0009 to U+000D, the separators U+001C to U+001F, the next
  line control U+0085 and the no-break space U+00A0.
\<close>

definition is_space :: "char \<Rightarrow> bool" where
  "is_space c = (c \<in> set [CHR '' '', CHR 0x09, CHR 0x0A, CHR 0x0B, CHR 0x0C, CHR 0x0D,
                           CHR 0x1C, CHR 0x1D, CHR 0x1E, CHR 0x1F, CHR 0x85, CHR 0xA0])"

definition strip :: "string \<Rightarrow> string" where
  "strip s = rev (dropWhile is_space (rev (dropWhile is_space s)))"

text \<open>
  The built-in \<open>int(s)\<close> on a string. White space at both ends is dropped, where
  \<open>int\<close> takes for white space the blank, the controls U+0009 to U+000D and, above
  ASCII, U+0085 and U+00A0; the separators U+001C to U+001F are not dropped, so a
  string that starts or ends with one is rejected. Then one sign is allowed and
  decimal digits follow, where single underscores may separate digits. Anything
  else raises \<open>ValueError\<close>, which is \<open>None\<close> here.
\<close>

definition int_space :: "char \<Rightarrow> bool" where
  "int_space c = (c \<in> set [CHR '' '', CHR 0x09, CHR 0x0A, CHR 0x0B, CHR 0x0C, CHR 0x0D,
                            CHR 0x85, CHR 0xA0])"

definition int_strip :: "string \<Rightarrow> string" where
  "int_strip s = rev (dropWhile int_space (rev (dropWhile int_space s)))"

definition digit_val :: "char \<Rightarrow> nat option" where
  "digit_val c = map_of (zip ''0123456789'' [0, 1, 2, 3, 4, 5, 6, 7, 8, 9]) c"

fun parse_digits :: "nat \<Rightarrow> string \<Rightarrow> nat option" where
  "parse_digits acc [] = Some acc"
| "parse_digits acc [c] =
     (case digit_val c of None \<Rightarrow> None | Some v \<Rightarrow> Some (10 * acc + v))"
| "parse_digits acc (c # d # ds) =
     (if c = CHR ''_'' then
        (case digit_val d of None \<Rightarrow> None | Some v \<Rightarrow> parse_digits (10 * acc + v) ds)
      else
        (case digit_val c of None \<Rightarrow> None | Some v \<Rightarrow> parse_digits (10 * acc + v) (d # ds)))"

definition parse_unsigned :: "string \<Rightarrow> nat option" where
  "parse_unsigned s =
     (case s of
        [] \<Rightarrow> None
      | d # ds \<Rightarrow> (case digit_val d of None \<Rightarrow> None | Some v \<Rightarrow> parse_digits v ds))"

definition py_int :: "string \<Rightarrow> int option" where
  "py_int s =
     (case int_strip s of
        [] \<Rightarrow> None
      | c # cs \<Rightarrow>
          if c = CHR ''-'' then map_option (\<lambda>n. - int n) (parse_unsigned cs)
          else if c = CHR ''+'' then map_option int (parse_unsigned cs)
          else map_option int (parse_unsigned (c # cs)))"

text \<open>\<open>"{}".format(i)\<close> for a natural number: its decimal digits.\<close>

function show_nat :: "nat \<Rightarrow> string" where
  "show_nat n =
     (if n < 10 then [''0123456789'' ! n]
      else show_nat (n div 10) @ [''0123456789'' ! (n mod 10)])"
  by pat_completeness auto
termination
  by (relation "measure (\<lambda>n. n)") auto

declare show_nat.simps [simp del]

section \<open>Host resolver: \<open>SAGA/hosts/host_catalog.py\<close>\<close>

text \<open>
  The argument of \<open>resolve_id\<close> is an int, a string or a list of such arguments
  (the docstring's \<open>int, str, list\<close>).
\<close>

datatype token = TInt int | TStr string | TList "token list"

text \<open>
  The fields \<open>__init__\<close> builds: the IDs of the loaded host list, in the order of the
  table, and the two dictionaries built from the table of named hosts. A Python
  \<open>dict(zip(keys, values))\<close> keeps the last value of a repeated key, hence the \<open>rev\<close>.
\<close>

record host_catalog =
  all_host_ids :: "int list"
  host_name_to_id :: "string \<rightharpoonup> int"
  host_id_to_name :: "int \<rightharpoonup> string"

definition init_catalog :: "int list \<Rightarrow> (string \<times> int) list \<Rightarrow> host_catalog" where
  "init_catalog nsaids named =
     \<lparr> all_host_ids = nsaids,
       host_name_to_id = map_of (rev (map (\<lambda>(n, i). (lower n, i)) named)),
       host_id_to_name = map_of (rev (map (\<lambda>(n, i). (i, n)) named)) \<rparr>"

definition paper1_complete_hosts :: "int list" where
  "paper1_complete_hosts = [166313, 147100, 165536, 61945, 132339, 149781, 33446, 150887]"

definition paper1_incomplete_hosts :: "int list" where
  "paper1_incomplete_hosts = [161174, 85746, 145729, 140594, 126115, 13927, 137625, 129237]"

text \<open>
  \<open>resolve_id\<close>: first \<open>int(hosts)\<close> is tried; then \<open>hosts.lower()\<close>, which only a
  string has, and the chain of comparisons on the lowered string; a list falls
  through both and is resolved element by element, \<open>out.extend\<close> appending each result.
  The message of the \<open>ValueError\<close> is formatted from \<open>hosts\<close> after it was rebound to
  the lowered string.
\<close>

fun resolve_id :: "host_catalog \<Rightarrow> token \<Rightarrow> error + int list"
  and resolve_each :: "host_catalog \<Rightarrow> token list \<Rightarrow> int list \<Rightarrow> error + int list"
where
  "resolve_id cat (TInt n) = Inr [n]"
| "resolve_id cat (TStr s) =
     (case py_int s of
        Some n \<Rightarrow> Inr [n]
      | None \<Rightarrow>
          (let hosts = lower s in
           if hosts = ''all'' then Inr (all_host_ids cat)
           else if hosts = ''paper1_complete'' then Inr paper1_complete_hosts
           else if hosts = ''paper1_incomplete'' then Inr paper1_incomplete_hosts
           else if hosts = ''paper1'' then Inr (paper1_complete_hosts @ paper1_incomplete_hosts)
           else (case host_name_to_id cat (lower hosts) of
                   Some i \<Rightarrow> Inr [i]
                 | None \<Rightarrow> Inl (ValueError (''cannot resolve '' @ hosts)))))"
| "resolve_id cat (TList ts) = resolve_each cat ts []"
| "resolve_each cat [] out = Inr out"
| "resolve_each cat (t # ts) out =
     (case resolve_id cat t of
        Inl e \<Rightarrow> Inl e
      | Inr ids \<Rightarrow> resolve_each cat ts (out @ ids))"

definition id_to_name :: "host_catalog \<Rightarrow> int \<Rightarrow> string option" where
  "id_to_name cat host_id = host_id_to_name cat host_id"

text \<open>
  A small catalog for concrete runs: three host IDs and the named host of the
  docstring, \<open>AnaK\<close> with ID 61945.
\<close>

definition example_catalog :: host_catalog where
  "example_catalog = init_catalog [61945, 13927, 166313] [(''AnaK'', 61945)]"

section \<open>Tables: the part of \<open>astropy.table.Table\<close> the functions use\<close>

text \<open>
  A table is the list of its columns, in the order of \<open>colnames\<close>; a column is a name
  and its cells, one per row. \<open>len(table)\<close> is the length of a column.
\<close>

type_synonym 'v table = "(string \<times> 'v list) list"

definition colnames :: "'v table \<Rightarrow> string list" where
  "colnames t = map fst t"

definition column :: "'v table \<Rightarrow> string \<Rightarrow> 'v list option" where
  "column t c = map_of t c"

definition nrows :: "'v table \<Rightarrow> nat" where
  "nrows t = (case t of [] \<Rightarrow> 0 | (c, xs) # rest \<Rightarrow> length xs)"

text \<open>Writing the cells of an existing column, the other columns untouched.\<close>

definition update_column :: "'v table \<Rightarrow> string \<Rightarrow> 'v list \<Rightarrow> 'v table" where
  "update_column t c xs = map (\<lambda>(n, ys). if n = c then (n, xs) else (n, ys)) t"

text \<open>
  \<open>table[c] = v\<close> with a scalar \<open>v\<close>: an existing column is overwritten in every row,
  a new column is appended with \<open>v\<close> in every row. Every call site below assigns
  to a table that has rows.
\<close>

definition set_scalar :: "'v table \<Rightarrow> string \<Rightarrow> 'v \<Rightarrow> 'v table" where
  "set_scalar t c v =
     (if c \<in> set (colnames t) then update_column t c (replicate (nrows t) v)
      else t @ [(c, replicate (nrows t) v)])"

text \<open>A row as the predicate of a query sees it: the cell of each column.\<close>

definition row_at :: "'v table \<Rightarrow> nat \<Rightarrow> (string \<rightharpoonup> 'v)" where
  "row_at t i = (\<lambda>c. map_option (\<lambda>xs. xs ! i) (column t c))"

section \<open>Coordinate join: \<open>join_table_by_coordinates\<close> in \<open>SAGA/utils.py\<close>\<close>

text \<open>
  The arrays that astropy's search returns: arrays of indices and arrays of
  quantities (angles, distances).
\<close>

datatype array = Indices "nat list" | Quantities "real list"

definition array_len :: "array \<Rightarrow> nat" where
  "array_len a = (case a of Indices ks \<Rightarrow> length ks | Quantities qs \<Rightarrow> length qs)"

text \<open>
  \<open>SkyCoord.search_around_sky\<close> is astropy's. Called as
  \<open>sc_to_join.search_around_sky(sc, max_distance)\<close> it finds every pair of a point of
  \<open>sc\<close> and a point of \<open>sc_to_join\<close> whose angular separation is within
  \<open>max_distance\<close> and returns a tuple of four arrays with one entry per pair:
  the index into \<open>sc\<close> (\<open>idxsearcharound\<close>), the index into \<open>sc_to_join\<close>
  (\<open>idxself\<close>), the angular separation (\<open>sep2d\<close>) and the distance in space
  (\<open>dist3d\<close>). The two distances are computed by the library, on floating-point
  numbers; they are parameters. The pairs are listed by the index into \<open>sc\<close>.
\<close>

definition search_around_sky ::
  "('c \<Rightarrow> 'c \<Rightarrow> real) \<Rightarrow> ('c \<Rightarrow> 'c \<Rightarrow> real) \<Rightarrow> real \<Rightarrow> 'c list \<Rightarrow> 'c list \<Rightarrow> array list" where
  "search_around_sky separation distance_3d max_distance sc sc_to_join =
     (let pairs = concat (map (\<lambda>i. map (\<lambda>j. (i, j))
                           (filter (\<lambda>j. separation (sc ! i) (sc_to_join ! j) \<le> max_distance)
                              [0..<length sc_to_join]))
                      [0..<length sc])
      in [Indices (map fst pairs),
          Indices (map snd pairs),
          Quantities (map (\<lambda>(i, j). separation (sc ! i) (sc_to_join ! j)) pairs),
          Quantities (map (\<lambda>(i, j). distance_3d (sc ! i) (sc_to_join ! j)) pairs)])"

text \<open>
  \<open>a, b, c = vs\<close>: unpacking into three names raises \<open>ValueError\<close> unless the
  sequence has exactly three items.
\<close>

definition unpack3 :: "'a list \<Rightarrow> error + 'a \<times> 'a \<times> 'a" where
  "unpack3 vs =
     (if 3 < length vs then Inl (ValueError ''too many values to unpack (expected 3)'')
      else if length vs < 3 then
        Inl (ValueError (''not enough values to unpack (expected 3, got '' @
                         show_nat (length vs) @ '')''))
      else Inr (vs ! 0, vs ! 1, vs ! 2))"

text \<open>
  \<open>xs[idx]\<close> with an index array, read and written. numpy raises \<open>IndexError\<close> for
  an array that does not hold integers and for an index out of range. In
  \<open>xs[idx] = vs\<close> the values are as many as the indices, or one value for all of
  them, or numpy raises \<open>ValueError\<close>; the assignments are made in the order of the
  indices, so the last one that names a row decides its cell.
\<close>

definition take_at :: "'v list \<Rightarrow> array \<Rightarrow> error + 'v list" where
  "take_at xs idx =
     (case idx of
        Quantities qs \<Rightarrow> Inl IndexError
      | Indices ks \<Rightarrow>
          if list_all (\<lambda>k. k < length xs) ks then Inr (map (\<lambda>k. xs ! k) ks)
          else Inl IndexError)"

definition assign_at :: "'v list \<Rightarrow> array \<Rightarrow> 'v list \<Rightarrow> error + 'v list" where
  "assign_at xs idx vs =
     (case idx of
        Quantities qs \<Rightarrow> Inl IndexError
      | Indices ks \<Rightarrow>
          if \<not> list_all (\<lambda>k. k < length xs) ks then Inl IndexError
          else if length vs = length ks then Inr (fold (\<lambda>(k, v) ys. ys[k := v]) (zip ks vs) xs)
          else if length vs = 1 then Inr (fold (\<lambda>k ys. ys[k := hd vs]) ks xs)
          else Inl (ValueError (''shape mismatch: value array of shape ('' @
                      show_nat (length vs) @
                      '',) could not be broadcast to indexing result of shape ('' @
                      show_nat (length ks) @ '',)'')))"

text \<open>
  The argument \<open>missing_value\<close> is a scalar or a dictionary from column names to
  scalars.
\<close>

datatype 'v missing = Scalar 'v | PerColumn "string \<rightharpoonup> 'v"

text \<open>
  The loop \<open>for c2 in columns_to_join\<close>. The table \<open>t1\<close> is changed in place, so the
  state of the table is returned also when a round raises; the missing-value
  column of that round has been created by then.
\<close>

fun join_columns ::
  "'v table \<Rightarrow> (string \<rightharpoonup> string) \<Rightarrow> (string \<rightharpoonup> 'v) \<Rightarrow> 'v \<Rightarrow> array \<Rightarrow> array \<Rightarrow>
   string list \<Rightarrow> 'v table \<Rightarrow> (error + unit) \<times> 'v table" where
  "join_columns t2 columns_to_rename missing_value_dict missing_value idx1 idx2 [] t1 =
     (Inr (), t1)"
| "join_columns t2 columns_to_rename missing_value_dict missing_value idx1 idx2 (c2 # cs) t1 =
     (let c1 = (case columns_to_rename c2 of Some r \<Rightarrow> r | None \<Rightarrow> c2);
          t1' = (if c1 \<notin> set (colnames t1)
                 then set_scalar t1 c1
                        (case missing_value_dict c1 of Some v \<Rightarrow> v | None \<Rightarrow> missing_value)
                 else t1)
      in case column t2 c2 of
           None \<Rightarrow> (Inl (KeyError c2), t1')
         | Some src \<Rightarrow>
             (case take_at src idx2 of
                Inl e \<Rightarrow> (Inl e, t1')
              | Inr vs \<Rightarrow>
                  (case column t1' c1 of
                     None \<Rightarrow> (Inl (KeyError c1), t1')
                   | Some col \<Rightarrow>
                       (case assign_at col idx1 vs of
                          Inl e \<Rightarrow> (Inl e, t1')
                        | Inr col' \<Rightarrow>
                            join_columns t2 columns_to_rename missing_value_dict missing_value
                              idx1 idx2 cs (update_column t1' c1 col')))))"

text \<open>
  Lines 74 to 95, the statements after the unpacking, given the two index arrays:
  \<open>n_matched = len(idx1)\<close>, the block under \<open>if n_matched:\<close> and the \<open>return\<close>.
  \<open>nan\<close> stands for \<open>np.nan\<close>.
\<close>

definition join_by_indices ::
  "'v \<Rightarrow> 'v table \<Rightarrow> 'v table \<Rightarrow> string list option \<Rightarrow> (string \<rightharpoonup> string) option \<Rightarrow>
   'v missing \<Rightarrow> array \<Rightarrow> array \<Rightarrow> (error + nat) \<times> 'v table" where
  "join_by_indices nan t1 t2 columns_to_join columns_to_rename missing_value idx1 idx2 =
     (let n_matched = array_len idx1
      in if n_matched \<noteq> 0 then
           (let cols = (case columns_to_join of None \<Rightarrow> colnames t2 | Some cs \<Rightarrow> cs);
                rename = (case columns_to_rename of None \<Rightarrow> Map.empty | Some d \<Rightarrow> d);
                missing_value_dict = (case missing_value of
                                        PerColumn d \<Rightarrow> d | Scalar v \<Rightarrow> Map.empty);
                missing_scalar = (case missing_value of PerColumn d \<Rightarrow> nan | Scalar v \<Rightarrow> v)
            in case join_columns t2 rename missing_value_dict missing_scalar idx1 idx2 cols t1 of
                 (Inl e, t1') \<Rightarrow> (Inl e, t1')
               | (Inr u, t1') \<Rightarrow> (Inr n_matched, t1'))
         else (Inr n_matched, t1))"

text \<open>
  \<open>join_table_by_coordinates\<close>. The function returns \<open>n_matched\<close> or raises; either
  way the caller sees the table as the call left it, which is the second
  component. The two tables are separate objects. Line 72 unpacks the tuple of
  the search into the three names \<open>idx1, idx2, _\<close>.
\<close>

definition join_table_by_coordinates ::
  "('v \<times> 'v \<Rightarrow> 'v \<times> 'v \<Rightarrow> real) \<Rightarrow> ('v \<times> 'v \<Rightarrow> 'v \<times> 'v \<Rightarrow> real) \<Rightarrow> 'v \<Rightarrow>
   'v table \<Rightarrow> 'v table \<Rightarrow> string list option \<Rightarrow> (string \<rightharpoonup> string) option \<Rightarrow> real \<Rightarrow>
   'v missing \<Rightarrow> string \<Rightarrow> string \<Rightarrow> string \<Rightarrow> string \<Rightarrow> (error + nat) \<times> 'v table" where
  "join_table_by_coordinates separation distance_3d nan table table_to_join columns_to_join
     columns_to_rename max_distance missing_value table_ra_name table_dec_name
     table_to_join_ra_name table_to_join_dec_name =
   (case column table table_ra_name of
      None \<Rightarrow> (Inl (KeyError table_ra_name), table)
    | Some ra \<Rightarrow>
   (case column table table_dec_name of
      None \<Rightarrow> (Inl (KeyError table_dec_name), table)
    | Some dec \<Rightarrow>
   (case column table_to_join table_to_join_ra_name of
      None \<Rightarrow> (Inl (KeyError table_to_join_ra_name), table)
    | Some ra2 \<Rightarrow>
   (case column table_to_join table_to_join_dec_name of
      None \<Rightarrow> (Inl (KeyError table_to_join_dec_name), table)
    | Some dec2 \<Rightarrow>
        (let sc = zip ra dec;
             sc_to_join = zip ra2 dec2
         in case unpack3 (search_around_sky separation distance_3d max_distance sc sc_to_join) of
              Inl e \<Rightarrow> (Inl e, table)
            | Inr (idx1, idx2, rest) \<Rightarrow>
                join_by_indices nan table table_to_join columns_to_join columns_to_rename
                  missing_value idx1 idx2)))))"

section \<open>Query-value filler: \<open>fill_values_by_query\<close> in \<open>SAGA/utils.py\<close>\<close>

text \<open>
  \<open>Query(query).mask(table)\<close> evaluates the predicate on every row; the predicate is
  a function on rows. \<open>table[c][mask] = v\<close> writes the scalar \<open>v\<close> where the mask is
  set; a mask of another length than the column raises \<open>IndexError\<close>. The mask
  is named \<open>row_mask\<close> here.
\<close>

definition query_mask :: "((string \<rightharpoonup> 'v) \<Rightarrow> bool) \<Rightarrow> 'v table \<Rightarrow> bool list" where
  "query_mask query t = map (\<lambda>i. query (row_at t i)) [0..<nrows t]"

definition count_nonzero :: "bool list \<Rightarrow> nat" where
  "count_nonzero row_mask = length (filter (\<lambda>b. b) row_mask)"

definition assign_mask :: "bool list \<Rightarrow> 'v \<Rightarrow> 'v list \<Rightarrow> 'v list" where
  "assign_mask row_mask v xs = map (\<lambda>(m, x). if m then v else x) (zip row_mask xs)"

text \<open>The loop \<open>for c, v in values_to_fill.items()\<close>, over the items in their order.\<close>

fun fill_columns ::
  "bool list \<Rightarrow> (string \<times> 'v) list \<Rightarrow> 'v table \<Rightarrow> (error + unit) \<times> 'v table" where
  "fill_columns row_mask [] t = (Inr (), t)"
| "fill_columns row_mask ((c, v) # kvs) t =
     (case column t c of
        None \<Rightarrow> (Inl (KeyError c), t)
      | Some xs \<Rightarrow>
          if length row_mask \<noteq> length xs then (Inl IndexError, t)
          else fill_columns row_mask kvs (update_column t c (assign_mask row_mask v xs)))"

definition fill_values_by_query ::
  "'v table \<Rightarrow> ((string \<rightharpoonup> 'v) \<Rightarrow> bool) \<Rightarrow> (string \<times> 'v) list \<Rightarrow> (error + nat) \<times> 'v table" where
  "fill_values_by_query table query values_to_fill =
     (let row_mask = query_mask query table;
          n_matched = count_nonzero row_mask
      in if n_matched \<noteq> 0 then
           (case fill_columns row_mask values_to_fill table of
              (Inl e, t) \<Rightarrow> (Inl e, t)
            | (Inr u, t) \<Rightarrow> (Inr n_matched, t))
         else (Inr n_matched, table))"

text \<open>
  The invariant astropy keeps for a table: the column names are distinct and all
  columns have one cell per row.
\<close>

definition wf_table :: "'v table \<Rightarrow> bool" where
  "wf_table t = (distinct (colnames t) \<and> list_all (\<lambda>(c, xs). length xs = nrows t) t)"

text \<open>
  Concrete inputs. All points lie on the equator (\<open>DEC = 0\<close>), where the angular
  separation of two points is the difference of their right ascensions, taken
  the short way round.
\<close>

definition equator_separation :: "real \<times> real \<Rightarrow> real \<times> real \<Rightarrow> real" where
  "equator_separation p q = min \<bar>fst p - fst q\<bar> (360 - \<bar>fst p - fst q\<bar>)"

text \<open>The distance in space of two points of the unit sphere: the chord.\<close>

definition equator_chord :: "real \<times> real \<Rightarrow> real \<times> real \<Rightarrow> real" where
  "equator_chord p q = 2 * sin (equator_separation p q * pi / 360)"

definition example_base :: "real table" where
  "example_base = [(''RA'', [10, 20]), (''DEC'', [0, 0]), (''OBJID'', [1, 2])]"

text \<open>The predicate of the query \<open>OBJID == k\<close>.\<close>

definition objid_is :: "real \<Rightarrow> (string \<rightharpoonup> real) \<Rightarrow> bool" where
  "objid_is k r = (r ''OBJID'' = Some k)"

definition example_far :: "real table" where
  "example_far = [(''RA'', [100]), (''DEC'', [0]), (''W1'', [5])]"

definition example_near :: "real table" where
  "example_near = [(''RA'', [20, 300]), (''DEC'', [0, 0]), (''W1'', [5, 6])]"

section \<open>Python strings and paths used by the readers\<close>

text \<open>\<open>sub in s\<close> on strings.\<close>

fun str_contains :: "string \<Rightarrow> string \<Rightarrow> bool" where
  "str_contains sub [] = (sub = [])"
| "str_contains sub (c # cs) = (prefix sub (c # cs) \<or> str_contains sub cs)"

text \<open>
  \<open>s.replace(old, new)\<close>: the occurrences of \<open>old\<close> are replaced from left to right,
  without overlap; an empty \<open>old\<close> matches before every character and at the end.
\<close>

function str_replace :: "string \<Rightarrow> string \<Rightarrow> string \<Rightarrow> string" where
  "str_replace old new s =
     (if old = [] then new @ concat (map (\<lambda>c. c # new) s)
      else if s = [] then []
      else if prefix old s then new @ str_replace old new (drop (length old) s)
      else hd s # str_replace old new (tl s))"
  by pat_completeness auto
termination
  by (relation "measure (\<lambda>(old, new, s). length s)") auto

declare str_replace.simps [simp del]

text \<open>\<open>os.path.join(a, b)\<close> for two components, on a POSIX system.\<close>

definition path_join :: "string \<Rightarrow> string \<Rightarrow> string" where
  "path_join a b =
     (if prefix ''/'' b then b
      else if a = [] \<or> suffix ''/'' a then a @ b
      else a @ ''/'' @ b)"

section \<open>Telescope readers: \<open>SAGA/spectra/read_observed.py\<close>\<close>

text \<open>The cells of the tables the readers handle: numbers, strings and booleans.\<close>

datatype val = Num real | Str string | Bool bool

text \<open>
  What the readers take from outside this file: the directory listing, astropy's
  parser of a text table (given the path, the column names, the excluded names
  and the keyword arguments), the header of a FITS file, the radial-velocity
  correction astropy computes from the header's position and time at a site,
  and from \<open>.common\<close> the function \<open>ensure_specs_dtype\<close> (with its flag
  \<open>skip_missing_cols\<close>) and the constant \<open>SPEED_OF_LIGHT\<close>. Each may raise.
\<close>

record world =
  listdir :: "string \<Rightarrow> error + string list"
  table_read :: "string \<Rightarrow> string list \<Rightarrow> string list \<Rightarrow> (string \<times> string) list \<Rightarrow> error + val table"
  fits_getheader :: "string \<Rightarrow> error + (string \<rightharpoonup> val)"
  radial_velocity_correction :: "val \<Rightarrow> val \<Rightarrow> real \<Rightarrow> string \<Rightarrow> error + real"
  ensure_specs_dtype :: "bool \<Rightarrow> val table \<Rightarrow> error + val table"
  speed_of_light :: real

text \<open>
  \<open>heliocentric_correction\<close>: the header is read (a missing file raises \<open>IOError\<close>),
  the position and the time are looked up in it, and the correction is returned
  with the observation time, a modified Julian date.
\<close>

definition heliocentric_correction ::
  "world \<Rightarrow> string \<Rightarrow> string \<Rightarrow> string \<Rightarrow> string \<Rightarrow> string \<Rightarrow> error + real \<times> real" where
  "heliocentric_correction w fits_filepath site_name ra_name dec_name time_name =
     (case fits_getheader w fits_filepath of
        Inl e \<Rightarrow> Inl e
      | Inr hdr \<Rightarrow>
     (case hdr ra_name of
        None \<Rightarrow> Inl (KeyError ra_name)
      | Some ra \<Rightarrow>
     (case hdr dec_name of
        None \<Rightarrow> Inl (KeyError dec_name)
      | Some dec \<Rightarrow>
     (case hdr time_name of
        None \<Rightarrow> Inl (KeyError time_name)
      | Some (Num obstime) \<Rightarrow>
          (case radial_velocity_correction w ra dec obstime site_name of
             Inl e \<Rightarrow> Inl e
           | Inr helio_corr \<Rightarrow> Inr (helio_corr, obstime))
      | Some other \<Rightarrow> Inl (ValueError ''Input values did not match the format class mjd'')))))"

text \<open>Table operations of the readers.\<close>

definition filter_rows :: "((string \<rightharpoonup> val) \<Rightarrow> bool) \<Rightarrow> val table \<Rightarrow> val table" where
  "filter_rows query t =
     map (\<lambda>(c, xs). (c, map snd (filter fst (zip (query_mask query t) xs)))) t"

definition delete_column :: "val table \<Rightarrow> string \<Rightarrow> error + val table" where
  "delete_column t c =
     (if c \<in> set (colnames t) then Inr (filter (\<lambda>(n, xs). n \<noteq> c) t) else Inl (KeyError c))"

text \<open>
  \<open>t[c] += x\<close> and \<open>t[c] *= x\<close>: arithmetic on a numeric column, in place; a cell that
  is no number raises \<open>TypeError\<close>.
\<close>

definition is_num :: "val \<Rightarrow> bool" where
  "is_num v = (case v of Num x \<Rightarrow> True | Str s \<Rightarrow> False | Bool b \<Rightarrow> False)"

definition map_num_column :: "val table \<Rightarrow> string \<Rightarrow> (real \<Rightarrow> real) \<Rightarrow> error + val table" where
  "map_num_column t c f =
     (case column t c of
        None \<Rightarrow> Inl (KeyError c)
      | Some xs \<Rightarrow>
          if list_all is_num xs
          then Inr (update_column t c
                      (map (\<lambda>v. case v of Num x \<Rightarrow> Num (f x) | Str s \<Rightarrow> v | Bool b \<Rightarrow> v) xs))
          else Inl TypeError)"

text \<open>
  \<open>vstack(tables, "exact")\<close>, astropy's: an empty list raises \<open>ValueError\<close>, an element
  that is no table (here Python's \<open>None\<close>) raises \<open>TypeError\<close>, tables whose
  column names differ raise \<open>TableMergeError\<close>; otherwise the rows are stacked
  in the order of the list, under the columns of the first table.
\<close>

definition vstack :: "val table option list \<Rightarrow> error + val table" where
  "vstack tables =
     (if tables = [] then Inl (ValueError ''no values provided to stack.'')
      else if None \<in> set tables then Inl TypeError
      else (let ts = map the tables; cols = colnames (hd ts)
            in if list_ex (\<lambda>t. set (colnames t) \<noteq> set cols) ts then Inl TableMergeError
               else Inr (map (\<lambda>c. (c, concat (map (\<lambda>t. the (column t c)) ts))) cols)))"

text \<open>The two warnings of the loop, with the directory, the file and the exception.\<close>

datatype warning =
    SkippedConflictedCopy string string
  | SkippedCouldNotRead string string error

text \<open>
  One round of the loop \<open>for f in os.listdir(dir_path)\<close>: the file is passed over
  (\<open>continue\<close>), passed over with a warning, its table is appended to \<open>output\<close>,
  or an exception leaves the function. What \<open>midprocess\<close> returns is appended as
  it is, also when it is \<open>None\<close>.
\<close>

datatype round = Continue | ContinueWarning warning | Append "val table option" | Raise error

definition read_one ::
  "world \<Rightarrow> string \<Rightarrow> string \<Rightarrow> string list \<Rightarrow> string list \<Rightarrow> (string \<times> string) list \<Rightarrow>
   ((string \<rightharpoonup> val) \<Rightarrow> bool) option \<Rightarrow> (val table \<Rightarrow> error + val table option) option \<Rightarrow>
   string \<Rightarrow> round" where
  "read_one w dir_path extension names exclude_names kwargs cuts midprocess f =
     (if \<not> suffix extension f then Continue
      else if str_contains ''conflicted copy'' f
      then ContinueWarning (SkippedConflictedCopy dir_path f)
      else
        (case table_read w (path_join dir_path f) names exclude_names kwargs of
           Inl e \<Rightarrow>
             if e = IOError \<or> e = CParserError
             then ContinueWarning (SkippedCouldNotRead dir_path f e)
             else Raise e
         | Inr parsed \<Rightarrow>
        (case ensure_specs_dtype w True parsed of
           Inl e \<Rightarrow> Raise e
         | Inr typed \<Rightarrow>
             (let cut = (case cuts of None \<Rightarrow> typed | Some q \<Rightarrow> filter_rows q typed)
              in if nrows cut = 0 then Continue
                 else
                   (let this = (if ''MASKNAME'' \<notin> set (colnames cut)
                                then set_scalar cut ''MASKNAME'' (Str f) else cut)
                    in case midprocess of
                         None \<Rightarrow> Append (Some this)
                       | Some mp \<Rightarrow>
                           (case mp this of Inl e \<Rightarrow> Raise e | Inr r \<Rightarrow> Append r))))))"

fun read_files ::
  "(string \<Rightarrow> round) \<Rightarrow> string list \<Rightarrow> val table option list \<Rightarrow> warning list \<Rightarrow>
   (error + val table option list) \<times> warning list" where
  "read_files one [] output warnings = (Inr output, warnings)"
| "read_files one (f # fs) output warnings =
     (case one f of
        Continue \<Rightarrow> read_files one fs output warnings
      | ContinueWarning wn \<Rightarrow> read_files one fs output (warnings @ [wn])
      | Append r \<Rightarrow> read_files one fs (output @ [r]) warnings
      | Raise e \<Rightarrow> (Inl e, warnings))"

text \<open>The column names given to the parser, and those it is told to leave out.\<close>

definition names_of :: "(nat \<rightharpoonup> string) \<Rightarrow> nat \<Rightarrow> string list" where
  "names_of usecols n_cols_total =
     map (\<lambda>i. case usecols (i + 1) of Some n \<Rightarrow> n | None \<Rightarrow> ''_'' @ show_nat i)
       [0..<n_cols_total]"

definition exclude_names_of :: "string list \<Rightarrow> string list" where
  "exclude_names_of names = filter (\<lambda>n. prefix ''_'' n) names"

text \<open>
  \<open>read_generic_spectra\<close> returns the normalized table or raises; the warnings it
  logged are the second component.
\<close>

definition read_generic_spectra ::
  "world \<Rightarrow> string \<Rightarrow> string \<Rightarrow> string \<Rightarrow> (nat \<rightharpoonup> string) \<Rightarrow> nat \<Rightarrow>
   ((string \<rightharpoonup> val) \<Rightarrow> bool) option \<Rightarrow> (val table \<Rightarrow> error + val table) option \<Rightarrow>
   (val table \<Rightarrow> error + val table option) option \<Rightarrow> (string \<times> string) list \<Rightarrow>
   (error + val table) \<times> warning list" where
  "read_generic_spectra w dir_path extension telname usecols n_cols_total cuts postprocess
     midprocess kwargs =
     (let names = names_of usecols n_cols_total;
          exclude_names = exclude_names_of names
      in case listdir w dir_path of
           Inl e \<Rightarrow> (Inl e, [])
         | Inr files \<Rightarrow>
             (case read_files
                     (read_one w dir_path extension names exclude_names kwargs cuts midprocess)
                     files [] [] of
                (Inl e, warnings) \<Rightarrow> (Inl e, warnings)
              | (Inr output, warnings) \<Rightarrow>
                  (case vstack output of
                     Inl e \<Rightarrow> (Inl e, warnings)
                   | Inr stacked \<Rightarrow>
                       (let tagged = set_scalar stacked ''TELNAME'' (Str telname)
                        in case (case postprocess of
                                   None \<Rightarrow> Inr tagged | Some pp \<Rightarrow> pp tagged) of
                             Inl e \<Rightarrow> (Inl e, warnings)
                           | Inr out \<Rightarrow> (ensure_specs_dtype w False out, warnings)))))"

text \<open>
  The nested function \<open>midprocess\<close> of \<open>read_mmt\<close>, \<open>read_aat\<close> and \<open>read_aat_mz\<close> is
  the same text three times, up to the extension replaced in the mask name,
  the site and the three header keys, which are arguments here. Its \<open>return\<close>
  without a value, taken when the observation is later than \<open>before_time\<close>,
  returns \<open>None\<close>.
\<close>

definition midprocess_helio ::
  "world \<Rightarrow> string \<Rightarrow> real option \<Rightarrow> string \<Rightarrow> string \<Rightarrow> string \<Rightarrow> string \<Rightarrow> string \<Rightarrow>
   val table \<Rightarrow> error + val table option" where
  "midprocess_helio w dir_path before_time extension site_name ra_name dec_name time_name t =
     (case column t ''MASKNAME'' of
        None \<Rightarrow> Inl (KeyError ''MASKNAME'')
      | Some [] \<Rightarrow> Inl IndexError
      | Some (Num x # rest) \<Rightarrow> Inl AttributeError
      | Some (Bool b # rest) \<Rightarrow> Inl AttributeError
      | Some (Str maskname # rest) \<Rightarrow>
          (let fits_filepath = path_join dir_path (str_replace extension ''.fits.gz'' maskname)
           in case heliocentric_correction w fits_filepath site_name ra_name dec_name time_name of
                Inl e \<Rightarrow>
                  if e = IOError then Inr (Some (set_scalar t ''HELIO_CORR'' (Bool False)))
                  else Inl e
              | Inr (corr, obstime) \<Rightarrow>
                  if (case before_time of None \<Rightarrow> False | Some b \<Rightarrow> obstime > b) then Inr None
                  else
                    (case map_num_column t ''SPEC_Z'' (\<lambda>z. z + corr) of
                       Inl e \<Rightarrow> Inl e
                     | Inr t' \<Rightarrow> Inr (Some (set_scalar t' ''HELIO_CORR'' (Bool True))))))"

text \<open>The cuts, as predicates on a row.\<close>

definition num_ge :: "string \<Rightarrow> real \<Rightarrow> (string \<rightharpoonup> val) \<Rightarrow> bool" where
  "num_ge c k r = (case r c of Some (Num x) \<Rightarrow> k \<le> x | Some other \<Rightarrow> False | None \<Rightarrow> False)"

definition cuts_mmt :: "(string \<rightharpoonup> val) \<Rightarrow> bool" where
  "cuts_mmt r = (r ''mag'' \<noteq> Some (Num 0) \<and> num_ge ''ZQUALITY'' 0 r \<and>
                 r ''SPECOBJID'' \<noteq> Some (Str ''0''))"

definition cuts_aat :: "(string \<rightharpoonup> val) \<Rightarrow> bool" where
  "cuts_aat r = (num_ge ''ZQUALITY'' 0 r \<and> r ''SPECOBJID'' \<noteq> Some (Str ''0''))"

definition cuts_aat_mz :: "(string \<rightharpoonup> val) \<Rightarrow> bool" where
  "cuts_aat_mz r = num_ge ''ZQUALITY'' 0 r"

definition cuts_imacs :: "(string \<rightharpoonup> val) \<Rightarrow> bool" where
  "cuts_imacs r = (num_ge ''ZQUALITY'' 1 r \<and> r ''SPECOBJID'' \<noteq> Some (Str ''0''))"

subsection \<open>\<open>read_mmt\<close>\<close>

definition usecols_mmt :: "nat \<rightharpoonup> string" where
  "usecols_mmt = map_of [(2, ''RA''), (3, ''DEC''), (4, ''mag''), (5, ''SPEC_Z''),
                          (6, ''SPEC_Z_ERR''), (7, ''ZQUALITY''), (8, ''SPECOBJID'')]"

definition midprocess_mmt :: "world \<Rightarrow> string \<Rightarrow> real option \<Rightarrow> val table \<Rightarrow> error + val table option" where
  "midprocess_mmt w dir_path before_time =
     midprocess_helio w dir_path before_time ''.zlog'' ''mmt'' ''RA'' ''DEC'' ''MJD''"

definition postprocess_mmt :: "val table \<Rightarrow> error + val table" where
  "postprocess_mmt t =
     (case delete_column t ''mag'' of
        Inl e \<Rightarrow> Inl e
      | Inr t' \<Rightarrow> map_num_column t' ''RA'' (\<lambda>x. x * 15))"

definition read_mmt :: "world \<Rightarrow> string \<Rightarrow> real option \<Rightarrow> (error + val table) \<times> warning list" where
  "read_mmt w dir_path before_time =
     read_generic_spectra w dir_path ''.zlog'' ''MMT'' usecols_mmt 11 (Some cuts_mmt)
       (Some postprocess_mmt) (Some (midprocess_mmt w dir_path before_time)) []"

subsection \<open>\<open>read_aat\<close>\<close>

definition usecols_aat :: "nat \<rightharpoonup> string" where
  "usecols_aat = map_of [(2, ''RA''), (3, ''DEC''), (5, ''SPEC_Z''), (7, ''ZQUALITY''),
                          (8, ''SPECOBJID'')]"

definition midprocess_aat :: "world \<Rightarrow> string \<Rightarrow> real option \<Rightarrow> val table \<Rightarrow> error + val table option" where
  "midprocess_aat w dir_path before_time =
     midprocess_helio w dir_path before_time ''.zlog'' ''sso'' ''MEANRA'' ''MEANDEC'' ''UTMJD''"

definition postprocess_aat :: "world \<Rightarrow> val table \<Rightarrow> error + val table" where
  "postprocess_aat w t = Inr (set_scalar t ''SPEC_Z_ERR'' (Num (10 / speed_of_light w)))"

definition read_aat :: "world \<Rightarrow> string \<Rightarrow> real option \<Rightarrow> (error + val table) \<times> warning list" where
  "read_aat w dir_path before_time =
     read_generic_spectra w dir_path ''.zlog'' ''AAT'' usecols_aat 11 (Some cuts_aat)
       (Some (postprocess_aat w)) (Some (midprocess_aat w dir_path before_time)) []"

subsection \<open>\<open>read_aat_mz\<close>\<close>

definition usecols_aat_mz :: "nat \<rightharpoonup> string" where
  "usecols_aat_mz = map_of [(3, ''RA''), (4, ''DEC''), (13, ''SPEC_Z''), (14, ''ZQUALITY''),
                             (1, ''SPECOBJID'')]"

definition midprocess_aat_mz :: "world \<Rightarrow> string \<Rightarrow> real option \<Rightarrow> val table \<Rightarrow> error + val table option" where
  "midprocess_aat_mz w dir_path before_time =
     midprocess_helio w dir_path before_time ''.mz'' ''sso'' ''MEANRA'' ''MEANDEC'' ''UTMJD''"

definition postprocess_aat_mz :: "world \<Rightarrow> val table \<Rightarrow> error + val table" where
  "postprocess_aat_mz w t =
     (case map_num_column t ''RA'' (\<lambda>x. x * (180 / pi)) of
        Inl e \<Rightarrow> Inl e
      | Inr t1 \<Rightarrow>
          (case map_num_column t1 ''DEC'' (\<lambda>x. x * (180 / pi)) of
             Inl e \<Rightarrow> Inl e
           | Inr t2 \<Rightarrow> Inr (set_scalar t2 ''SPEC_Z_ERR'' (Num (10 / speed_of_light w)))))"

definition read_aat_mz :: "world \<Rightarrow> string \<Rightarrow> real option \<Rightarrow> (error + val table) \<times> warning list" where
  "read_aat_mz w dir_path before_time =
     read_generic_spectra w dir_path ''.mz'' ''AAT'' usecols_aat_mz 15 (Some cuts_aat_mz)
       (Some (postprocess_aat_mz w)) (Some (midprocess_aat_mz w dir_path before_time))
       [(''delimiter'', '','')]"

subsection \<open>\<open>read_imacs\<close>\<close>

definition usecols_imacs :: "nat \<rightharpoonup> string" where
  "usecols_imacs = map_of [(2, ''RA''), (3, ''DEC''), (5, ''SPEC_Z''), (6, ''SPEC_Z_ERR''),
                            (7, ''ZQUALITY''), (8, ''SPECOBJID''), (11, ''MASKNAME'')]"

definition read_imacs :: "world \<Rightarrow> string \<Rightarrow> (error + val table) \<times> warning list" where
  "read_imacs w dir_path =
     read_generic_spectra w dir_path ''.zlog'' ''IMACS'' usecols_imacs 12 (Some cuts_imacs)
       None None []"

subsection \<open>A directory of MMT files for concrete runs\<close>

text \<open>
  The directory \<open>obs\<close> holds the files listed in \<open>files\<close>. The parser yields one row
  for \<open>a.zlog\<close> and one for \<open>b.zlog\<close>; any other file cannot be read. The FITS
  headers give the observation times 58000 for \<open>a\<close> and 59000 for \<open>b\<close>. The tables
  are in canonical form already, so \<open>ensure_specs_dtype\<close> returns them as they are.
\<close>

definition mmt_row :: "string \<Rightarrow> val table" where
  "mmt_row objid =
     [(''RA'', [Num 10]), (''DEC'', [Num 20]), (''mag'', [Num 18]), (''SPEC_Z'', [Num 1]),
      (''SPEC_Z_ERR'', [Num 0]), (''ZQUALITY'', [Num 4]), (''SPECOBJID'', [Str objid])]"

definition mmt_header :: "real \<Rightarrow> (string \<rightharpoonup> val)" where
  "mmt_header mjd = map_of [(''RA'', Str ''10:00:00''), (''DEC'', Str ''+20:00:00''), (''MJD'', Num mjd)]"

definition example_world :: "string list \<Rightarrow> world" where
  "example_world files =
     \<lparr> listdir = (\<lambda>d. if d = ''obs'' then Inr files else Inl IOError),
       table_read = (\<lambda>path names exclude_names kwargs.
          if path = ''obs/a.zlog'' then Inr (mmt_row ''a1'')
          else if path = ''obs/b.zlog'' then Inr (mmt_row ''b1'')
          else Inl IOError),
       fits_getheader = (\<lambda>path.
          if path = ''obs/a.fits.gz'' then Inr (mmt_header 58000)
          else if path = ''obs/b.fits.gz'' then Inr (mmt_header 59000)
          else Inl IOError),
       radial_velocity_correction = (\<lambda>ra dec obstime site. Inr 2),
       ensure_specs_dtype = (\<lambda>skip_missing_cols t. Inr t),
       speed_of_light = 299792.458 \<rparr>"

section \<open>SDSS query text: \<open>SdssQuery\<close> in \<open>SAGA/database/external.py\<close>\<close>

text \<open>
  The class attribute \<open>_query_template\<close>, line by line: the lines before the line
  with the three number fields, and the lines after the line with the field
  \<open>{db_table_name}\<close>. The template starts with a line break after the opening
  quotes and ends with the four blanks before the closing quotes.
\<close>

definition query_template_head :: "string list" where
  "query_template_head =
     [''        SELECT  p.objId  as OBJID,'',
      ''        p.ra as RA, p.dec as DEC,'',
      ''        p.type as PHOTPTYPE,  dbo.fPhotoTypeN(p.type) as PHOT_SG,'',
      '''',
      ''        p.flags as FLAGS, p.clean,'',
      ''        flags & dbo.fPhotoFlags('SATURATED') as SATURATED,'',
      ''        flags & dbo.fPhotoFlags('BAD_COUNTS_ERROR') as BAD_COUNTS_ERROR,'',
      ''        flags & dbo.fPhotoFlags('BINNED1') as BINNED1,'',
      ''        flags & dbo.fPhotoFlags('TOO_FEW_GOOD_DETECTIONS') as TOO_FEW_GOOD_DETECTIONS,'',
      '''',
      ''        p.modelMag_u as u, p.modelMag_g as g, p.modelMag_r as r,p.modelMag_i as i,p.modelMag_z as z,'',
      ''        p.modelMagErr_u as u_err, p.modelMagErr_g as g_err,'',
      ''        p.modelMagErr_r as r_err,p.modelMagErr_i as i_err,p.modelMagErr_z as z_err,'',
      '''',
      ''        p.MODELMAGERR_U,p.MODELMAGERR_G,p.MODELMAGERR_R,p.MODELMAGERR_I,p.MODELMAGERR_Z,'',
      '''',
      ''        p.EXTINCTION_U, p.EXTINCTION_G, p.EXTINCTION_R, p.EXTINCTION_I, p.EXTINCTION_Z,'',
      ''        p.DERED_U,p.DERED_G,p.DERED_R,p.DERED_I,p.DERED_Z,'',
      '''',
      ''        p.PETRORAD_U,p.PETRORAD_G,p.PETRORAD_R,p.PETRORAD_I,p.PETRORAD_Z,'',
      ''        p.PETRORADERR_U,p.PETRORADERR_G,p.PETRORADERR_R,p.PETRORADERR_I,p.PETRORADERR_Z,'',
      '''',
      ''        p.DEVRAD_U,p.DEVRADERR_U,p.DEVRAD_G,p.DEVRADERR_G,p.DEVRAD_R,p.DEVRADERR_R,'',
      ''        p.DEVRAD_I,p.DEVRADERR_I,p.DEVRAD_Z,p.DEVRADERR_Z,'',
      ''        p.DEVAB_U,p.DEVAB_G,p.DEVAB_R,p.DEVAB_I,p.DEVAB_Z,'',
      '''',
      ''        p.CMODELMAG_U, p.CMODELMAGERR_U, p.CMODELMAG_G,p.CMODELMAGERR_G,'',
      ''        p.CMODELMAG_R, p.CMODELMAGERR_R, p.CMODELMAG_I,p.CMODELMAGERR_I,'',
      ''        p.CMODELMAG_Z, p.CMODELMAGERR_Z,'',
      '''',
      ''        p.PSFMAG_U, p.PSFMAGERR_U, p.PSFMAG_G, p.PSFMAGERR_G,'',
      ''        p.PSFMAG_R, p.PSFMAGERR_R, p.PSFMAG_I, p.PSFMAGERR_I,'',
      ''        p.PSFMAG_Z, p.PSFMAGERR_Z,'',
      '''',
      ''        p.FIBERMAG_U, p.FIBERMAGERR_U, p.FIBERMAG_G, p.FIBERMAGERR_G,'',
      ''        p.FIBERMAG_R, p.FIBERMAGERR_R, p.FIBERMAG_I, p.FIBERMAGERR_I,'',
      ''        p.FIBERMAG_Z, p.FIBERMAGERR_Z,'',
      '''',
      ''        p.FRACDEV_U, p.FRACDEV_G, p.FRACDEV_R, p.FRACDEV_I, p.FRACDEV_Z,'',
      ''        p.Q_U,p.U_U, p.Q_G,p.U_G, p.Q_R,p.U_R, p.Q_I,p.U_I, p.Q_Z,p.U_Z,'',
      '''',
      ''        p.EXPAB_U, p.EXPRAD_U, p.EXPPHI_U, p.EXPAB_G, p.EXPRAD_G, p.EXPPHI_G,'',
      ''        p.EXPAB_R, p.EXPRAD_R, p.EXPPHI_R, p.EXPAB_I, p.EXPRAD_I, p.EXPPHI_I,'',
      ''        p.EXPAB_Z, p.EXPRAD_Z, p.EXPPHI_Z,'',
      '''',
      ''        p.FIBER2MAG_R, p.FIBER2MAGERR_R,'',
      ''        p.EXPMAG_R, p.EXPMAGERR_R,'',
      '''',
      ''        p.PETROR50_R, p.PETROR90_R, p.PETROMAG_R,'',
      ''        p.expMag_r + 2.5*log10(2*PI()*p.expRad_r*p.expRad_r + 1e-20) as SB_EXP_R,'',
      ''        p.petroMag_r + 2.5*log10(2*PI()*p.petroR50_r*p.petroR50_r) as SB_PETRO_R,'',
      '''',
      ''        ISNULL(w.j_m_2mass,9999) as J, ISNULL(w.j_msig_2mass,9999) as JERR,'',
      ''        ISNULL(w.H_m_2mass,9999) as H, ISNULL(w.h_msig_2mass,9999) as HERR,'',
      ''        ISNULL(w.k_m_2mass,9999) as K, ISNULL(w.k_msig_2mass,9999) as KERR,'',
      '''',
      ''        s.survey,'',
      ''        ISNULL(s.z, -1) as SPEC_Z, ISNULL(s.zErr, -1) as SPEC_Z_ERR, ISNULL(s.zWarning, -1) as SPEC_Z_WARN,'',
      ''        ISNULL(pz.z,-1) as PHOTOZ, ISNULL(pz.zerr,-1) as PHOTOZ_ERR'',
      '''']"

definition query_template_tail :: "string list" where
  "query_template_tail =
     [''        LEFT JOIN SpecObj s ON p.specObjID = s.specObjID'',
      ''        LEFT JOIN PHOTOZ  pz ON p.ObjID = pz.ObjID'',
      ''        LEFT join WISE_XMATCH as wx on p.objid = wx.sdss_objid'',
      ''        LEFT join wise_ALLSKY as w on  wx.wise_cntr = w.cntr'',
      ''        WHERE n.objID = p.objID'']"

definition newline :: string where
  "newline = [CHR 0x0A]"

definition unlines :: "string list \<Rightarrow> string" where
  "unlines ls = concat (map (\<lambda>l. l @ newline) ls)"

text \<open>
  \<open>_query_template.format(**locals())\<close>, given the texts of the three numbers (the
  fields have the format \<open>.10g\<close>) and the table name.
\<close>

definition format_template :: "string \<Rightarrow> string \<Rightarrow> string \<Rightarrow> string \<Rightarrow> string" where
  "format_template ra dec r_arcmin db_table_name =
     newline @
     unlines (query_template_head @
              [''        FROM dbo.fGetNearbyObjEq('' @ ra @ '', '' @ dec @ '', '' @ r_arcmin @
                 '') n, PhotoPrimary p'',
               ''        INTO mydb.'' @ db_table_name] @
              query_template_tail) @
     ''    ''"

text \<open>
  The formatted template, cut at the clause \<open>INTO mydb.\<close>: the text before the
  clause, which holds the three numbers, and the text after the table name.
\<close>

definition template_before_into :: "string \<Rightarrow> string \<Rightarrow> string \<Rightarrow> string" where
  "template_before_into ra dec r_arcmin =
     newline @ unlines query_template_head @
     ''        FROM dbo.fGetNearbyObjEq('' @ ra @ '', '' @ dec @ '', '' @ r_arcmin @
     '') n, PhotoPrimary p'' @ newline @ ''        ''"

definition template_after_name :: string where
  "template_after_name = newline @ unlines query_template_tail @ ''    ''"

text \<open>\<open>s.rstrip()\<close>, the right half of \<open>strip\<close>.\<close>

definition rstrip :: "string \<Rightarrow> string" where
  "rstrip s = rev (dropWhile is_space (rev s))"

text \<open>\<open>re.sub(r'\s+', ' ', q)\<close>: every maximal run of whitespace becomes one blank.\<close>

function collapse_ws :: "string \<Rightarrow> string" where
  "collapse_ws [] = []"
| "collapse_ws (c # cs) =
     (if is_space c then CHR '' '' # collapse_ws (dropWhile is_space cs)
      else c # collapse_ws cs)"
  by pat_completeness auto
termination
  by (relation "measure length") (auto simp: le_imp_less_Suc length_dropWhile_le)

text \<open>
  \<open>construct_query\<close>. The coordinates are floats in degrees; \<open>format_10g\<close> is Python's
  formatting of a float with \<open>.10g\<close>, a parameter.
\<close>

definition construct_query ::
  "(real \<Rightarrow> string) \<Rightarrow> real \<Rightarrow> real \<Rightarrow> real \<Rightarrow> string option \<Rightarrow> string" where
  "construct_query format_10g ra dec radius db_table_name =
     (let select_into_mydb = (db_table_name \<noteq> None);
          name = (case db_table_name of None \<Rightarrow> ''TO_BE_REMOVED'' | Some n \<Rightarrow> n);
          r_arcmin = radius * 60;
          q0 = format_template (format_10g ra) (format_10g dec) (format_10g r_arcmin) name;
          q1 = strip (collapse_ws q0);
          q2 = str_replace '', '' '','' q1
      in if \<not> select_into_mydb then str_replace (''INTO mydb.'' @ name @ '' '') [] q2 else q2)"

text \<open>
  What \<open>.10g\<close> can produce for a float: digits, a point, an exponent, a sign,
  \<open>inf\<close> or \<open>nan\<close>; never the empty string.
\<close>

definition g_format_text :: "string \<Rightarrow> bool" where
  "g_format_text x = (x \<noteq> [] \<and> set x \<subseteq> set ''0123456789.e+-infa'')"

text \<open>
  \<open>SdssQuery.__init__\<close>. \<open>a or b\<close> on optional strings takes \<open>a\<close> unless it is \<open>None\<close> or
  empty. The environment, the presence of the SciServer module and the random
  string are parameters. \<open>re.sub('[^A-Za-z]', '', s)\<close> keeps the ASCII letters.
  The field \<open>context\<close> is named \<open>query_context\<close>.
\<close>

definition truthy :: "string option \<Rightarrow> bool" where
  "truthy a = (case a of None \<Rightarrow> False | Some s \<Rightarrow> s \<noteq> [])"

definition py_or :: "string option \<Rightarrow> string option \<Rightarrow> string option" where
  "py_or a b = (if truthy a then a else b)"

definition is_ascii_letter :: "char \<Rightarrow> bool" where
  "is_ascii_letter c =
     (c \<in> set ''ABCDEFGHIJKLMNOPQRSTUVWXYZabcdefghijklmnopqrstuvwxyz'')"

definition keep_letters :: "string \<Rightarrow> string" where
  "keep_letters s = filter is_ascii_letter s"

record sdss_query =
  sciserver_user :: "string option"
  sciserver_pass :: "string option"
  casjobs_user :: "string option"
  casjobs_pass :: "string option"
  use_sciserver :: bool
  db_table_name :: "string option"
  query :: string
  query_context :: string

definition sdss_query_init ::
  "(real \<Rightarrow> string) \<Rightarrow> (string \<Rightarrow> string option) \<Rightarrow> bool \<Rightarrow> (nat \<Rightarrow> string) \<Rightarrow>
   real \<Rightarrow> real \<Rightarrow> real \<Rightarrow> string option \<Rightarrow> string \<Rightarrow> string option \<Rightarrow> string option \<Rightarrow> bool \<Rightarrow>
   sdss_query" where
  "sdss_query_init format_10g getenv has_sciserver get_random_string
     ra dec radius db_table_name_arg context_arg user password default_use_sciserver =
     (let s_user = py_or user (getenv ''SCISERVER_USER'');
          s_pass = py_or password (getenv ''SCISERVER_PASS'');
          c_user = py_or user (getenv ''CASJOBS_WSID'');
          c_pass = py_or password (getenv ''CASJOBS_PW'');
          sciserver = (default_use_sciserver \<and> has_sciserver \<and> truthy s_user \<and> truthy s_pass);
          table_name =
            (if sciserver then None
             else Some (keep_letters
                          (if \<not> truthy db_table_name_arg then ''SAGA'' @ get_random_string 4
                           else the db_table_name_arg)))
      in \<lparr> sciserver_user = s_user, sciserver_pass = s_pass,
           casjobs_user = c_user, casjobs_pass = c_pass,
           use_sciserver = sciserver,
           db_table_name = table_name,
           query = construct_query format_10g ra dec radius table_name,
           query_context = context_arg \<rparr>)"

text \<open>A formatting of the three numbers of a concrete query.\<close>

definition example_format_10g :: "real \<Rightarrow> string" where
  "example_format_10g x = (if x = 150 then ''150'' else if x = 60 then ''60'' else ''2.5'')"

section \<open>Properties of the host resolver\<close>

text \<open>
  Facts about \<open>lower_char\<close> are checked on each of the 256 characters.
\<close>

lemma lower_char_idem: "lower_char (lower_char c) = lower_char c"
proof -
  have "\<forall>c. lower_char (lower_char c) = lower_char c"
    by code_simp
  then show ?thesis ..
qed

lemma lower_idem: "lower (lower s) = lower s"
  by (simp add: lower_def lower_char_idem)

lemma lower_char_p: "lower_char c = CHR ''p'' \<Longrightarrow> c = CHR ''p'' \<or> c = CHR ''P''"
proof -
  have "\<forall>c. lower_char c = CHR ''p'' \<longrightarrow> c = CHR ''p'' \<or> c = CHR ''P''"
    by code_simp
  then show "lower_char c = CHR ''p'' \<Longrightarrow> c = CHR ''p'' \<or> c = CHR ''P''"
    by simp
qed

lemma lower_char_1: "lower_char c = CHR ''1'' \<Longrightarrow> c = CHR ''1''"
proof -
  have "\<forall>c. lower_char c = CHR ''1'' \<longrightarrow> c = CHR ''1''"
    by code_simp
  then show "lower_char c = CHR ''1'' \<Longrightarrow> c = CHR ''1''"
    by simp
qed

text \<open>A string that lowers to \<open>paper1\<close> is not accepted by \<open>int\<close>.\<close>

lemma py_int_paper1:
  assumes "lower s = ''paper1''"
  shows "py_int s = None"
proof -
  from assms obtain c1 c2 c3 c4 c5 c6 where s: "s = [c1, c2, c3, c4, c5, c6]"
    and c1: "lower_char c1 = CHR ''p''" and c6: "lower_char c6 = CHR ''1''"
    by (auto simp: lower_def map_eq_Cons_conv)
  from c6 have c6': "c6 = CHR ''1''" by (rule lower_char_1)
  from c1 have c1': "c1 = CHR ''p'' \<or> c1 = CHR ''P''" by (rule lower_char_p)
  have n1: "\<not> int_space c1" and n6: "\<not> int_space c6"
    using c1' c6' by (auto simp: int_space_def)
  have d1: "digit_val c1 = None" and sg: "c1 \<noteq> CHR ''-''" "c1 \<noteq> CHR ''+''"
    using c1' by (auto simp: digit_val_def)
  have "int_strip s = s"
    by (simp add: s int_strip_def n1 n6)
  then show ?thesis
    by (simp add: py_int_def s parse_unsigned_def d1 sg)
qed

text \<open>The loop over a list appends the results of its elements, in order.\<close>

lemma resolve_each_concat:
  "list_all2 (\<lambda>t ids. resolve_id cat t = Inr ids) ts idss \<Longrightarrow>
   resolve_each cat ts out = Inr (out @ concat idss)"
  by (induction ts idss arbitrary: out rule: list_all2_induct) auto

text \<open>The first element that raises ends the loop with its exception.\<close>

lemma resolve_each_error:
  "list_all2 (\<lambda>t ids. resolve_id cat t = Inr ids) pre idss \<Longrightarrow> resolve_id cat t = Inl e \<Longrightarrow>
   resolve_each cat (pre @ t # post) out = Inl e"
  by (induction pre idss arbitrary: out rule: list_all2_induct) auto

lemma example_catalog_anak: "host_name_to_id example_catalog ''anak'' = Some 61945"
  by code_simp

lemma py_int_12345: "py_int ''12345'' = Some 12345"
  by code_simp

text \<open>
  \<open>int\<close> drops a no-break space or a tabulator around the digits, and rejects a
  string that starts with the separator U+001C, which \<open>str.strip()\<close> would drop.
\<close>

lemma py_int_padded:
  "py_int [CHR 0xA0, CHR ''1'', CHR ''2''] = Some 12"
  "py_int [CHR 0x09, CHR ''-'', CHR ''1'', CHR ''_'', CHR ''2'', CHR 0x85] = Some (- 12)"
  by code_simp+

lemma py_int_separator:
  "py_int [CHR 0x1C, CHR ''1'', CHR ''2''] = None"
  "strip [CHR 0x1C, CHR ''1'', CHR ''2''] = ''12''"
  by code_simp+

lemma py_int_AnaK: "py_int ''AnaK'' = None"
  by code_simp

lemma py_int_FooBar: "py_int ''FooBar'' = None"
  by code_simp

lemma lower_AnaK: "lower ''AnaK'' = ''anak''"
  by code_simp

lemma lower_FooBar: "lower ''FooBar'' = ''foobar''"
  by code_simp

lemma lower_Paper1: "lower ''Paper1'' = ''paper1''"
  by code_simp

lemma resolve_id_AnaK: "resolve_id example_catalog (TStr ''AnaK'') = Inr [61945]"
  by (simp add: py_int_AnaK lower_AnaK lower_idem [of "''AnaK''", unfolded lower_AnaK]
      example_catalog_anak Let_def)

text \<open>
  C7. \<open>resolve_id\<close> returns a list in every case (its result type is a list of IDs):
  an int \<open>n\<close> gives \<open>[n]\<close>, a string that \<open>int\<close> accepts gives the one-element list
  of its value, and a list whose elements resolve gives the concatenation of the
  elements' results, in the order of the input and with repetitions kept.
\<close>

theorem resolve_id_numeric_and_list:
  "resolve_id cat (TInt n) = Inr [n] \<and>
   (py_int s = Some m \<longrightarrow> resolve_id cat (TStr s) = Inr [m]) \<and>
   (list_all2 (\<lambda>t ids. resolve_id cat t = Inr ids) ts idss \<longrightarrow>
      resolve_id cat (TList ts) = Inr (concat idss))"
  using resolve_each_concat [of cat ts idss "[]"] by simp

theorem resolve_id_numeric_and_list_witness:
  "resolve_id example_catalog (TInt 12345) = Inr [12345] \<and>
   py_int ''12345'' = Some 12345 \<and>
   resolve_id example_catalog (TStr ''12345'') = Inr [12345] \<and>
   list_all2 (\<lambda>t ids. resolve_id example_catalog t = Inr ids)
     [TInt 12345, TStr ''AnaK'', TInt 12345] [[12345], [61945], [12345]] \<and>
   resolve_id example_catalog (TList [TInt 12345, TStr ''AnaK'', TInt 12345])
     = Inr [12345, 61945, 12345]"
proof -
  have h1: "py_int ''12345'' = Some 12345" by (rule py_int_12345)
  have h2: "list_all2 (\<lambda>t ids. resolve_id example_catalog t = Inr ids)
     [TInt 12345, TStr ''AnaK'', TInt 12345] [[12345], [61945], [12345]]"
    by (simp add: resolve_id_AnaK del: resolve_id.simps(2))
  show ?thesis
    using h1 h2
      resolve_id_numeric_and_list [of example_catalog 12345 "''12345''" 12345
        "[TInt 12345, TStr ''AnaK'', TInt 12345]" "[[12345], [61945], [12345]]"]
    by (simp del: resolve_id.simps)
qed

text \<open>
  C8. For every spelling of \<open>paper1\<close> (the comparison is made on the lowered
  string), \<open>resolve_id\<close> returns the complete hosts followed by the incomplete
  hosts, sixteen IDs in all.
\<close>

theorem resolve_id_paper1:
  "lower s = ''paper1'' \<Longrightarrow>
   resolve_id cat (TStr s) = Inr (paper1_complete_hosts @ paper1_incomplete_hosts) \<and>
   length (paper1_complete_hosts @ paper1_incomplete_hosts) = 16 \<and>
   paper1_complete_hosts @ paper1_incomplete_hosts =
     [166313, 147100, 165536, 61945, 132339, 149781, 33446, 150887,
      161174, 85746, 145729, 140594, 126115, 13927, 137625, 129237]"
  by (simp add: py_int_paper1 paper1_complete_hosts_def paper1_incomplete_hosts_def)

theorem resolve_id_paper1_witness:
  "lower ''Paper1'' = ''paper1'' \<and>
   resolve_id example_catalog (TStr ''Paper1'') =
     Inr [166313, 147100, 165536, 61945, 132339, 149781, 33446, 150887,
          161174, 85746, 145729, 140594, 126115, 13927, 137625, 129237]"
  using resolve_id_paper1 [of "''Paper1''" example_catalog, OF lower_Paper1] lower_Paper1
  by (simp del: resolve_id.simps)

text \<open>
  C9, as stated, fails: the message does not name the token that was passed. The
  string \<open>FooBar\<close> is no number, no shorthand and no host name of the catalog; the
  call raises \<open>ValueError\<close> with the message \<open>cannot resolve foobar\<close>, in which
  \<open>FooBar\<close> does not occur.
\<close>

theorem resolve_id_message_lowered_counterexample:
  "py_int ''FooBar'' = None \<and>
   lower ''FooBar'' \<notin> {''all'', ''paper1_complete'', ''paper1_incomplete'', ''paper1''} \<and>
   host_name_to_id example_catalog (lower ''FooBar'') = None \<and>
   resolve_id example_catalog (TStr ''FooBar'') = Inl (ValueError ''cannot resolve foobar'') \<and>
   \<not> str_contains ''FooBar'' ''cannot resolve foobar''"
proof -
  have h3: "host_name_to_id example_catalog ''foobar'' = None"
    by code_simp
  have h5: "\<not> str_contains ''FooBar'' ''cannot resolve foobar''"
    by code_simp
  show ?thesis
    using h3 h5 by (simp add: py_int_FooBar lower_FooBar lower_idem [of "''FooBar''", unfolded lower_FooBar])
qed

text \<open>
  C9, amended. A string that \<open>int\<close> rejects, that is none of the four shorthand names
  after lowering and whose lowered form is no key of the name dictionary makes
  \<open>resolve_id\<close> raise \<open>ValueError\<close>. The message is \<open>cannot resolve\<close> followed by the
  token in lower case, the form in which the lookup uses it (\<open>hosts\<close> is rebound to
  \<open>hosts.lower()\<close> before the message is formatted). Nothing catches the exception:
  a list that holds the token after elements that resolve raises the same error.
\<close>

theorem resolve_id_unresolvable:
  assumes "py_int s = None"
    and "lower s \<notin> {''all'', ''paper1_complete'', ''paper1_incomplete'', ''paper1''}"
    and "host_name_to_id cat (lower s) = None"
  shows "resolve_id cat (TStr s) = Inl (ValueError (''cannot resolve '' @ lower s)) \<and>
    (list_all2 (\<lambda>t ids. resolve_id cat t = Inr ids) pre idss \<longrightarrow>
       resolve_id cat (TList (pre @ TStr s # post))
         = Inl (ValueError (''cannot resolve '' @ lower s)))"
proof -
  have one: "resolve_id cat (TStr s) = Inl (ValueError (''cannot resolve '' @ lower s))"
    using assms by (simp add: lower_idem)
  show ?thesis
    using one resolve_each_error [of cat pre idss "TStr s" _ post "[]"] by simp
qed

lemma py_int_NGC: "py_int ''NGC 9999'' = None"
  by code_simp

lemma lower_NGC: "lower ''NGC 9999'' = ''ngc 9999''"
  by code_simp

theorem resolve_id_unresolvable_witness:
  "py_int ''NGC 9999'' = None \<and>
   lower ''NGC 9999'' \<notin> {''all'', ''paper1_complete'', ''paper1_incomplete'', ''paper1''} \<and>
   host_name_to_id example_catalog (lower ''NGC 9999'') = None \<and>
   resolve_id example_catalog (TStr ''NGC 9999'') = Inl (ValueError ''cannot resolve ngc 9999'') \<and>
   list_all2 (\<lambda>t ids. resolve_id example_catalog t = Inr ids) [TInt 12345] [[12345]] \<and>
   resolve_id example_catalog (TList [TInt 12345, TStr ''NGC 9999'', TStr ''paper1''])
     = Inl (ValueError ''cannot resolve ngc 9999'')"
proof -
  have h1: "py_int ''NGC 9999'' = None" by (rule py_int_NGC)
  have h2: "lower ''NGC 9999'' \<notin> {''all'', ''paper1_complete'', ''paper1_incomplete'', ''paper1''}"
    by (simp add: lower_NGC)
  have h3: "host_name_to_id example_catalog (lower ''NGC 9999'') = None"
    unfolding lower_NGC by code_simp
  have h4: "list_all2 (\<lambda>t ids. resolve_id example_catalog t = Inr ids) [TInt 12345] [[12345]]"
    by simp
  show ?thesis
    using h1 h2 h3 h4
      resolve_id_unresolvable [OF h1 h2 h3, of "[TInt 12345]" "[[12345]]" "[TStr ''paper1'']"]
    by (simp add: lower_NGC del: resolve_id.simps)
qed

section \<open>Properties of the coordinate join\<close>

lemma column_mem: "column t c \<noteq> None \<longleftrightarrow> c \<in> set (colnames t)"
  by (simp add: column_def colnames_def map_of_eq_None_iff)

lemma colnames_update [simp]: "colnames (update_column t c xs) = colnames t"
  by (induction t) (auto simp: update_column_def colnames_def)

lemma colnames_append [simp]: "colnames (t @ u) = colnames t @ colnames u"
  by (simp add: colnames_def)

lemma colnames_set_scalar: "set (colnames (set_scalar t c v)) = insert c (set (colnames t))"
  by (auto simp: set_scalar_def) (simp_all add: colnames_def)

text \<open>The search returns four arrays, whatever the points; three names do not take them.\<close>

lemma search_four: "length (search_around_sky sep d3 tol sc sc2) = 4"
  by (simp add: search_around_sky_def Let_def)

lemma unpack3_three: "unpack3 [a, b, c] = Inr (a, b, c)"
  by (simp add: unpack3_def)

lemma unpack3_search:
  "unpack3 (search_around_sky sep d3 tol sc sc2) =
     Inl (ValueError ''too many values to unpack (expected 3)'')"
  by (simp add: unpack3_def search_four)

text \<open>
  So every call that finds the four coordinate columns raises at line 72, before
  anything is written to the table.
\<close>

lemma join_raises_at_unpack:
  assumes "column t ra_name = Some ra" and "column t dec_name = Some dec"
    and "column t2 ra2_name = Some ra2" and "column t2 dec2_name = Some dec2"
  shows "join_table_by_coordinates sep d3 nan t t2 cj cr tol mv ra_name dec_name ra2_name dec2_name
           = (Inl (ValueError ''too many values to unpack (expected 3)''), t)"
  using assms by (simp add: join_table_by_coordinates_def unpack3_search)

text \<open>
  The index arrays of the search: the first has one entry for each pair of points
  within the tolerance, and none when all points are farther apart.
\<close>

lemma search_first:
  "array_len (search_around_sky sep d3 tol sc sc2 ! 0) =
     length (concat (map (\<lambda>i. filter (\<lambda>j. sep (sc ! i) (sc2 ! j) \<le> tol) [0..<length sc2])
                       [0..<length sc]))"
  by (simp add: search_around_sky_def Let_def array_len_def length_concat comp_def)

lemma search_disjoint:
  assumes "\<forall>p\<in>set sc. \<forall>q\<in>set sc2. tol < sep p q"
  shows "search_around_sky sep d3 tol sc sc2 =
           [Indices [], Indices [], Quantities [], Quantities []]"
proof -
  have far: "\<not> sep (sc ! i) (sc2 ! j) \<le> tol" if "i < length sc" "j < length sc2" for i j
  proof -
    have "tol < sep (sc ! i) (sc2 ! j)"
      using assms nth_mem [OF that(1)] nth_mem [OF that(2)] by blast
    then show ?thesis by simp
  qed
  have "filter (\<lambda>j. sep (sc ! i) (sc2 ! j) \<le> tol) [0..<length sc2] = []" if "i < length sc" for i
    using far [OF that] by (simp add: filter_empty_conv)
  then have none: "concat (map (\<lambda>i. map (\<lambda>j. (i, j))
                 (filter (\<lambda>j. sep (sc ! i) (sc2 ! j) \<le> tol) [0..<length sc2]))
               [0..<length sc]) = []"
    by simp
  show ?thesis
    unfolding search_around_sky_def Let_def none by simp
qed

text \<open>
  The statements after the unpacking write nothing when the first index array is
  empty: the columns are created under \<open>if n_matched:\<close> only.
\<close>

lemma join_by_indices_no_match:
  "array_len idx1 = 0 \<Longrightarrow> join_by_indices nan t t2 cj cr mv idx1 idx2 = (Inr 0, t)"
  by (simp add: join_by_indices_def)

lemma ex_cols:
  "column example_base ''RA'' = Some [10, 20]" "column example_base ''DEC'' = Some [0, 0]"
  "column example_far ''RA'' = Some [100]" "column example_far ''DEC'' = Some [0]"
  "column example_near ''RA'' = Some [20, 300]" "column example_near ''DEC'' = Some [0, 0]"
  by (simp_all add: column_def example_base_def example_far_def example_near_def)

lemma upt2: "[0..<2] = [0, Suc 0]" "[0..<Suc 0] = [0]"
  by (simp_all add: upt_rec)

lemma ex_near_search:
  "search_around_sky equator_separation equator_chord (1 / 3600)
     [(10, 0), (20, 0)] [(20, 0), (300, 0)] =
   [Indices [1], Indices [0], Quantities [0], Quantities [0]]"
  by (simp add: search_around_sky_def equator_separation_def equator_chord_def upt2)

text \<open>
  With the index arrays of that search, one pair, the statements after the
  unpacking create the column and write the matched row.
\<close>

lemma ex_near_by_indices:
  "join_by_indices 0 example_base example_near (Some [''W1'']) None (Scalar (-1))
     (Indices [1]) (Indices [0])
   = (Inr 1, [(''RA'', [10, 20]), (''DEC'', [0, 0]), (''OBJID'', [1, 2]), (''W1'', [-1, 5])])"
  by (simp add: join_by_indices_def array_len_def Let_def example_base_def example_near_def
      colnames_def column_def set_scalar_def nrows_def update_column_def take_at_def
      assign_at_def)

text \<open>
  C1. The call does not return the number of matched pairs. The base table with
  points at right ascension 10 and 20 and the other table with points at 20 and
  300 have one pair within the tolerance of one arc second, so the count to
  return is 1. The call raises \<open>ValueError\<close> at line 72, where the four arrays of
  the search are unpacked into three names.
\<close>

theorem join_table_by_coordinates_raises:
  "array_len (search_around_sky equator_separation equator_chord (1 / 3600)
                [(10, 0), (20, 0)] [(20, 0), (300, 0)] ! 0) = 1 \<and>
   join_table_by_coordinates equator_separation equator_chord 0 example_base example_near
     (Some [''W1'']) None (1 / 3600) (Scalar (-1)) ''RA'' ''DEC'' ''RA'' ''DEC''
   = (Inl (ValueError ''too many values to unpack (expected 3)''), example_base)"
  using join_raises_at_unpack [OF ex_cols(1) ex_cols(2) ex_cols(5) ex_cols(6)]
  by (simp add: ex_near_search array_len_def)




section \<open>Properties of the query-value filler\<close>

lemma count_nonzero_query:
  "count_nonzero (query_mask q t) = card {i. i < nrows t \<and> q (row_at t i)}"
proof -
  have "{i. i < length (query_mask q t) \<and> query_mask q t ! i} = {i. i < nrows t \<and> q (row_at t i)}"
    by (auto simp: query_mask_def)
  then show ?thesis
    by (simp add: count_nonzero_def length_filter_conv_card)
qed

lemma length_assign_mask: "length m = length xs \<Longrightarrow> length (assign_mask m v xs) = length xs"
  by (simp add: assign_mask_def)

lemma nth_assign_mask:
  "length m = length xs \<Longrightarrow> i < length xs \<Longrightarrow>
   assign_mask m v xs ! i = (if m ! i then v else xs ! i)"
  by (simp add: assign_mask_def)

lemma column_unique:
  "distinct (colnames t) \<Longrightarrow> column t c = Some xs \<Longrightarrow> (c, zs) \<in> set t \<Longrightarrow> zs = xs"
  by (simp add: colnames_def column_def)

lemma column_map:
  "column (map (\<lambda>(n, zs). (n, f n zs)) t) c = map_option (f c) (column t c)"
  by (induction t) (auto simp: column_def)

lemma fill_columns_result:
  assumes "distinct (colnames t)" and "list_all (\<lambda>(c, xs). length xs = length m) t"
    and "distinct (map fst kvs)" and "set (map fst kvs) \<subseteq> set (colnames t)"
  shows "fill_columns m kvs t =
     (Inr (), map (\<lambda>(n, zs). (n, case map_of kvs n of Some v \<Rightarrow> assign_mask m v zs | None \<Rightarrow> zs)) t)"
  using assms
proof (induction kvs arbitrary: t)
  case Nil
  then show ?case by simp
next
  case (Cons kv kvs)
  obtain c v where kv: "kv = (c, v)" by (cases kv)
  from Cons.prems(4) have "c \<in> set (colnames t)" by (simp add: kv)
  then obtain xs where xs: "column t c = Some xs"
    using column_mem [of t c] by auto
  then have "(c, xs) \<in> set t"
    by (simp add: column_def map_of_SomeD)
  with Cons.prems(2) have len: "length m = length xs"
    by (auto simp: list_all_iff)
  let ?t1 = "update_column t c (assign_mask m v xs)"
  have d1: "distinct (colnames ?t1)"
    using Cons.prems(1) by simp
  have l1: "list_all (\<lambda>(c, xs). length xs = length m) ?t1"
    using Cons.prems(2) len
    by (fastforce simp: list_all_iff update_column_def length_assign_mask split: if_splits)
  have k1: "distinct (map fst kvs)" "set (map fst kvs) \<subseteq> set (colnames ?t1)"
    using Cons.prems(3,4) by (simp_all add: kv)
  have notin: "map_of kvs c = None"
    using Cons.prems(3) by (simp add: kv map_of_eq_None_iff)
  have step: "fill_columns m (kv # kvs) t = fill_columns m kvs ?t1"
    by (simp add: kv xs len)
  have "map (\<lambda>(n, zs). (n, case map_of kvs n of Some v \<Rightarrow> assign_mask m v zs | None \<Rightarrow> zs)) ?t1 =
        map (\<lambda>(n, zs). (n, case map_of (kv # kvs) n of Some v \<Rightarrow> assign_mask m v zs | None \<Rightarrow> zs)) t"
    unfolding update_column_def map_map
  proof (rule map_cong [OF refl])
    fix e assume e: "e \<in> set t"
    obtain n zs where nz: "e = (n, zs)" by (cases e)
    show "((\<lambda>(n, zs). (n, case map_of kvs n of Some v \<Rightarrow> assign_mask m v zs | None \<Rightarrow> zs)) \<circ>
           (\<lambda>(n, ys). if n = c then (n, assign_mask m v xs) else (n, ys))) e =
          (\<lambda>(n, zs). (n, case map_of (kv # kvs) n of Some v \<Rightarrow> assign_mask m v zs | None \<Rightarrow> zs)) e"
    proof (cases "n = c")
      case True
      then have "zs = xs"
        using column_unique [OF Cons.prems(1) xs] e nz by simp
      then show ?thesis
        by (simp add: nz True kv notin)
    next
      case False
      then show ?thesis
        by (simp add: nz kv)
    qed
  qed
  then show ?case
    using Cons.IH [OF d1 l1 k1] step by simp
qed


lemma wf_column_length: "wf_table t \<Longrightarrow> column t c = Some xs \<Longrightarrow> length xs = nrows t"
  by (auto simp: wf_table_def list_all_iff column_def dest!: map_of_SomeD)

text \<open>
  C6. For a well-formed table and a dictionary of values, \<open>fill_values_by_query\<close>
  returns the number of rows the predicate matches. With no match the table is
  returned as it was. With the dictionary's columns present in the table, every
  cell of a matched row in a column of the dictionary becomes the value given
  for that column, every other cell keeps its value, and the columns stay the same.
\<close>

theorem fill_values_by_query_correct:
  assumes "wf_table t" and "distinct (map fst kvs)"
  shows
    "(card {i. i < nrows t \<and> q (row_at t i)} = 0 \<longrightarrow> fill_values_by_query t q kvs = (Inr 0, t)) \<and>
     (set (map fst kvs) \<subseteq> set (colnames t) \<longrightarrow>
        (\<exists>t'. fill_values_by_query t q kvs = (Inr (card {i. i < nrows t \<and> q (row_at t i)}), t') \<and>
           colnames t' = colnames t \<and>
           (\<forall>c xs. column t c = Some xs \<longrightarrow>
              (\<exists>ys. column t' c = Some ys \<and> length ys = length xs \<and>
                 (\<forall>i<length xs. ys ! i =
                    (if q (row_at t i)
                     then (case map_of kvs c of Some v \<Rightarrow> v | None \<Rightarrow> xs ! i)
                     else xs ! i))))))"
proof (intro conjI impI)
  assume "card {i. i < nrows t \<and> q (row_at t i)} = 0"
  then have "count_nonzero (query_mask q t) = 0"
    by (simp only: count_nonzero_query)
  then show "fill_values_by_query t q kvs = (Inr 0, t)"
    by (simp add: fill_values_by_query_def Let_def)
next
  assume keys: "set (map fst kvs) \<subseteq> set (colnames t)"
  let ?m = "query_mask q t"
  let ?n = "card {i. i < nrows t \<and> q (row_at t i)}"
  let ?G = "\<lambda>n zs. case map_of kvs n of Some v \<Rightarrow> assign_mask ?m v zs | None \<Rightarrow> zs"
  have lm: "length ?m = nrows t" by (simp add: query_mask_def)
  have nm: "?m ! i = q (row_at t i)" if "i < nrows t" for i
    using that by (simp add: query_mask_def)
  show "\<exists>t'. fill_values_by_query t q kvs = (Inr ?n, t') \<and> colnames t' = colnames t \<and>
           (\<forall>c xs. column t c = Some xs \<longrightarrow>
              (\<exists>ys. column t' c = Some ys \<and> length ys = length xs \<and>
                 (\<forall>i<length xs. ys ! i =
                    (if q (row_at t i)
                     then (case map_of kvs c of Some v \<Rightarrow> v | None \<Rightarrow> xs ! i)
                     else xs ! i))))"
  proof (cases "?n = 0")
    case True
    have "count_nonzero (query_mask q t) = 0"
      using True by (simp only: count_nonzero_query)
    then have "fill_values_by_query t q kvs = (Inr ?n, t)"
      using True by (simp add: fill_values_by_query_def Let_def)
    moreover have "\<not> q (row_at t i)" if "i < length xs" "column t c = Some xs" for i c xs
      using True that wf_column_length [OF assms(1) that(2)] by auto
    ultimately show ?thesis by auto
  next
    case False
    have "list_all (\<lambda>(c, xs). length xs = length ?m) t"
      using assms(1) by (simp add: wf_table_def lm)
    then have fc: "fill_columns ?m kvs t = (Inr (), map (\<lambda>(n, zs). (n, ?G n zs)) t)"
      using fill_columns_result [of t ?m kvs] assms keys by (simp add: wf_table_def)
    let ?t' = "map (\<lambda>(n, zs). (n, ?G n zs)) t"
    have "count_nonzero (query_mask q t) = ?n"
      by (simp only: count_nonzero_query)
    then have r: "fill_values_by_query t q kvs = (Inr ?n, ?t')"
      using False fc by (auto simp: fill_values_by_query_def Let_def)
    have cn: "colnames ?t' = colnames t"
      by (simp add: colnames_def case_prod_beta cong: map_cong)
    have cells: "\<exists>ys. column ?t' c = Some ys \<and> length ys = length xs \<and>
                 (\<forall>i<length xs. ys ! i =
                    (if q (row_at t i)
                     then (case map_of kvs c of Some v \<Rightarrow> v | None \<Rightarrow> xs ! i)
                     else xs ! i))" if cx: "column t c = Some xs" for c xs
    proof -
      have lx: "length xs = nrows t" by (rule wf_column_length [OF assms(1) cx])
      have "column ?t' c = Some (?G c xs)"
        by (simp add: column_map cx)
      moreover have "length (?G c xs) = length xs"
        by (simp add: length_assign_mask lm lx split: option.split)
      moreover have "?G c xs ! i =
                    (if q (row_at t i)
                     then (case map_of kvs c of Some v \<Rightarrow> v | None \<Rightarrow> xs ! i)
                     else xs ! i)" if "i < length xs" for i
        using that by (simp add: nth_assign_mask lm lx nm split: option.split)
      ultimately show ?thesis by blast
    qed
    show ?thesis
      using r cn cells by blast
  qed
qed


lemma example_base_wf: "wf_table example_base"
  by (simp add: wf_table_def example_base_def colnames_def nrows_def)

lemma example_fill_match:
  "fill_values_by_query example_base (objid_is 2) [(''RA'', 99), (''DEC'', 7)]
     = (Inr 1, [(''RA'', [10, 99]), (''DEC'', [0, 7]), (''OBJID'', [1, 2])])"
  by (simp add: fill_values_by_query_def query_mask_def count_nonzero_def objid_is_def row_at_def
      column_def example_base_def nrows_def upt2 update_column_def assign_mask_def)

lemma example_fill_no_match:
  "fill_values_by_query example_base (objid_is 5) [(''RA'', 99), (''DEC'', 7)]
     = (Inr 0, example_base)"
  by (simp add: fill_values_by_query_def query_mask_def count_nonzero_def objid_is_def row_at_def
      column_def example_base_def nrows_def upt2)

theorem fill_values_by_query_correct_witness:
  "wf_table example_base \<and> distinct (map fst [(''RA'', 99 :: real), (''DEC'', 7)]) \<and>
   set (map fst [(''RA'', 99 :: real), (''DEC'', 7)]) \<subseteq> set (colnames example_base) \<and>
   card {i. i < nrows example_base \<and> objid_is 5 (row_at example_base i)} = 0 \<and>
   fill_values_by_query example_base (objid_is 5) [(''RA'', 99), (''DEC'', 7)]
     = (Inr 0, example_base) \<and>
   card {i. i < nrows example_base \<and> objid_is 2 (row_at example_base i)} = 1 \<and>
   fill_values_by_query example_base (objid_is 2) [(''RA'', 99), (''DEC'', 7)]
     = (Inr 1, [(''RA'', [10, 99]), (''DEC'', [0, 7]), (''OBJID'', [1, 2])])"
proof -
  have d: "distinct (map fst [(''RA'', 99 :: real), (''DEC'', 7)])" by simp
  have k: "set (map fst [(''RA'', 99 :: real), (''DEC'', 7)]) \<subseteq> set (colnames example_base)"
    by (simp add: colnames_def example_base_def)
  note m5 = fill_values_by_query_correct [OF example_base_wf d, of "objid_is 5", THEN conjunct2,
      rule_format, OF k]
  note m2 = fill_values_by_query_correct [OF example_base_wf d, of "objid_is 2", THEN conjunct2,
      rule_format, OF k]
  have c5: "card {i. i < nrows example_base \<and> objid_is 5 (row_at example_base i)} = 0"
    using m5 example_fill_no_match by auto
  have c2: "card {i. i < nrows example_base \<and> objid_is 2 (row_at example_base i)} = 1"
    using m2 example_fill_match by auto
  show ?thesis
    using example_base_wf d k c5 c2 example_fill_no_match example_fill_match by blast
qed

section \<open>Properties of the telescope readers\<close>

lemma vstack_None: "None \<in> set output \<Longrightarrow> vstack output = Inl TypeError"
  by (auto simp: vstack_def)

lemma read_files_keeps:
  "read_files one fs out ws = (Inr output, ws') \<Longrightarrow> set out \<subseteq> set output"
proof (induction fs arbitrary: out ws)
  case Nil
  then show ?case by simp
next
  case (Cons f fs)
  show ?case
  proof (cases "one f")
    case (Append r)
    with Cons.prems have "read_files one fs (out @ [r]) ws = (Inr output, ws')" by simp
    from Cons.IH [OF this] show ?thesis by simp
  qed (use Cons in auto)
qed

lemma read_files_appended:
  "read_files one fs out ws = (Inr output, ws') \<Longrightarrow> f \<in> set fs \<Longrightarrow> one f = Append r \<Longrightarrow>
   r \<in> set output"
proof (induction fs arbitrary: out ws)
  case Nil
  then show ?case by simp
next
  case (Cons g fs)
  show ?case
  proof (cases "g = f")
    case True
    with Cons.prems have "read_files one fs (out @ [r]) ws = (Inr output, ws')"
      by simp
    from read_files_keeps [OF this] show ?thesis by simp
  next
    case False
    with Cons.prems show ?thesis
      by (cases "one g") (auto dest: Cons.IH)
  qed
qed

text \<open>
  The defect behind both: whenever the round of some file appends \<open>None\<close>, the
  function raises.
\<close>

lemma dropped_file_raises:
  assumes "listdir w dir_path = Inr files" and "f \<in> set files"
    and "read_one w dir_path extension (names_of usecols n) (exclude_names_of (names_of usecols n))
           kwargs cuts midprocess f = Append None"
  shows "\<exists>e. fst (read_generic_spectra w dir_path extension telname usecols n cuts postprocess
                    midprocess kwargs) = Inl e"
proof -
  let ?one = "read_one w dir_path extension (names_of usecols n)
                (exclude_names_of (names_of usecols n)) kwargs cuts midprocess"
  obtain r ws where rf: "read_files ?one files [] [] = (r, ws)"
    by (cases "read_files ?one files [] []")
  show ?thesis
  proof (cases r)
    case (Inl e)
    then show ?thesis
      using assms(1) rf by (simp add: read_generic_spectra_def Let_def)
  next
    case (Inr tables)
    then have "None \<in> set tables"
      using read_files_appended [of ?one files "[]" "[]" tables ws f None] rf assms(2,3) by simp
    then have "vstack tables = Inl TypeError" by (rule vstack_None)
    then show ?thesis
      using assms(1) rf Inr by (simp add: read_generic_spectra_def Let_def)
  qed
qed

lemma read_files_without_conflicted:
  assumes "\<And>f. str_contains ''conflicted copy'' f \<Longrightarrow> one f = Continue \<or> (\<exists>wn. one f = ContinueWarning wn)"
  shows "fst (read_files one fs out ws) =
         fst (read_files one (filter (\<lambda>f. \<not> str_contains ''conflicted copy'' f) fs) out ws')"
proof (induction fs arbitrary: out ws ws')
  case Nil
  then show ?case by simp
next
  case (Cons f fs)
  show ?case
  proof (cases "str_contains ''conflicted copy'' f")
    case True
    with assms [of f] Cons.IH show ?thesis by auto
  next
    case False
    with Cons.IH show ?thesis
      by (cases "one f") auto
  qed
qed

lemma read_one_conflicted:
  "str_contains ''conflicted copy'' f \<Longrightarrow>
   read_one w dir_path extension names exclude_names kwargs cuts midprocess f = Continue \<or>
   (\<exists>wn. read_one w dir_path extension names exclude_names kwargs cuts midprocess f
      = ContinueWarning wn)"
  by (simp add: read_one_def)

lemma read_one_listdir [simp]:
  "read_one (w\<lparr>listdir := l\<rparr>) = read_one w"
  by (intro ext) (simp add: read_one_def cong: sum.case_cong)

lemma reader_without_conflicted:
  "fst (read_generic_spectra (w\<lparr>listdir := \<lambda>d. Inr files\<rparr>) dir_path extension telname usecols n
          cuts postprocess midprocess kwargs) =
   fst (read_generic_spectra
          (w\<lparr>listdir := \<lambda>d. Inr (filter (\<lambda>f. \<not> str_contains ''conflicted copy'' f) files)\<rparr>)
          dir_path extension telname usecols n cuts postprocess midprocess kwargs)"
proof -
  let ?one = "read_one w dir_path extension (names_of usecols n)
                (exclude_names_of (names_of usecols n)) kwargs cuts midprocess"
  let ?kept = "filter (\<lambda>f. \<not> str_contains ''conflicted copy'' f) files"
  obtain r ws where a: "read_files ?one files [] [] = (r, ws)"
    by (cases "read_files ?one files [] []")
  obtain r' ws' where b: "read_files ?one ?kept [] [] = (r', ws')"
    by (cases "read_files ?one ?kept [] []")
  have "r = r'"
    using read_files_without_conflicted [of ?one files "[]" "[]" "[]"] read_one_conflicted a b
    by simp
  then show ?thesis
    using a b
    by (simp add: read_generic_spectra_def Let_def split: sum.splits)
qed

text \<open>
  C5. In a directory that holds a file \<open>g\<close> and a file whose name contains
  \<open>conflicted copy\<close>, in either order, \<open>read_generic_spectra\<close> returns what it returns
  for the directory that holds \<open>g\<close> alone, be it a table or an exception: the
  conflicted copy adds no row and raises nothing; it is logged and passed over.
  This holds for every reader built on \<open>read_generic_spectra\<close>.
\<close>

theorem conflicted_copy_contributes_nothing:
  assumes "str_contains ''conflicted copy'' c"
  shows
    "fst (read_generic_spectra (w\<lparr>listdir := \<lambda>d. Inr [g, c]\<rparr>) dir_path extension telname usecols n
            cuts postprocess midprocess kwargs) =
     fst (read_generic_spectra (w\<lparr>listdir := \<lambda>d. Inr [g]\<rparr>) dir_path extension telname usecols n
            cuts postprocess midprocess kwargs) \<and>
     fst (read_generic_spectra (w\<lparr>listdir := \<lambda>d. Inr [c, g]\<rparr>) dir_path extension telname usecols n
            cuts postprocess midprocess kwargs) =
     fst (read_generic_spectra (w\<lparr>listdir := \<lambda>d. Inr [g]\<rparr>) dir_path extension telname usecols n
            cuts postprocess midprocess kwargs)"
proof -
  let ?R = "\<lambda>fs. fst (read_generic_spectra (w\<lparr>listdir := \<lambda>d. Inr fs\<rparr>) dir_path extension telname
                        usecols n cuts postprocess midprocess kwargs)"
  let ?P = "\<lambda>f. \<not> str_contains ''conflicted copy'' f"
  have F: "?R fs = ?R (filter ?P fs)" for fs
    by (rule reader_without_conflicted)
  have a: "filter ?P [g, c] = filter ?P [g]" and b: "filter ?P [c, g] = filter ?P [g]"
    using assms by simp_all
  have "?R [g, c] = ?R [g]"
    using F [of "[g, c]"] F [of "[g]"] unfolding a by (rule trans [OF _ sym])
  moreover have "?R [c, g] = ?R [g]"
    using F [of "[c, g]"] F [of "[g]"] unfolding b by (rule trans [OF _ sym])
  ultimately show ?thesis by (rule conjI)
qed


lemma example_conflicted_name: "str_contains ''conflicted copy'' ''a (conflicted copy).zlog''"
  by code_simp

lemma example_one_file:
  "fst (read_generic_spectra (example_world []\<lparr>listdir := \<lambda>d. Inr [''a.zlog'']\<rparr>) ''obs''
          ''.zlog'' ''MMT'' usecols_mmt 11 (Some cuts_mmt) (Some postprocess_mmt)
          (Some (midprocess_mmt (example_world []) ''obs'' None)) []) =
   Inr [(''RA'', [Num 150]), (''DEC'', [Num 20]), (''SPEC_Z'', [Num 3]),
        (''SPEC_Z_ERR'', [Num 0]), (''ZQUALITY'', [Num 4]), (''SPECOBJID'', [Str ''a1'']),
        (''MASKNAME'', [Str ''a.zlog'']), (''HELIO_CORR'', [Bool True]),
        (''TELNAME'', [Str ''MMT''])]"
  by code_simp

theorem conflicted_copy_contributes_nothing_witness:
  "str_contains ''conflicted copy'' ''a (conflicted copy).zlog'' \<and>
   fst (read_generic_spectra
          (example_world []\<lparr>listdir := \<lambda>d. Inr [''a.zlog'', ''a (conflicted copy).zlog'']\<rparr>)
          ''obs'' ''.zlog'' ''MMT'' usecols_mmt 11 (Some cuts_mmt) (Some postprocess_mmt)
          (Some (midprocess_mmt (example_world []) ''obs'' None)) []) =
   Inr [(''RA'', [Num 150]), (''DEC'', [Num 20]), (''SPEC_Z'', [Num 3]),
        (''SPEC_Z_ERR'', [Num 0]), (''ZQUALITY'', [Num 4]), (''SPECOBJID'', [Str ''a1'']),
        (''MASKNAME'', [Str ''a.zlog'']), (''HELIO_CORR'', [Bool True]),
        (''TELNAME'', [Str ''MMT''])] \<and>
   fst (read_generic_spectra
          (example_world []\<lparr>listdir := \<lambda>d. Inr [''a (conflicted copy).zlog'', ''a.zlog'']\<rparr>)
          ''obs'' ''.zlog'' ''MMT'' usecols_mmt 11 (Some cuts_mmt) (Some postprocess_mmt)
          (Some (midprocess_mmt (example_world []) ''obs'' None)) []) =
   Inr [(''RA'', [Num 150]), (''DEC'', [Num 20]), (''SPEC_Z'', [Num 3]),
        (''SPEC_Z_ERR'', [Num 0]), (''ZQUALITY'', [Num 4]), (''SPECOBJID'', [Str ''a1'']),
        (''MASKNAME'', [Str ''a.zlog'']), (''HELIO_CORR'', [Bool True]),
        (''TELNAME'', [Str ''MMT''])]"
  using example_conflicted_name example_one_file
    conflicted_copy_contributes_nothing [where c = "''a (conflicted copy).zlog''"
      and w = "example_world []" and g = "''a.zlog''" and dir_path = "''obs''"
      and extension = "''.zlog''" and telname = "''MMT''" and usecols = usecols_mmt and n = 11
      and cuts = "Some cuts_mmt" and postprocess = "Some postprocess_mmt"
      and midprocess = "Some (midprocess_mmt (example_world []) ''obs'' None)" and kwargs = "[]",
      OF example_conflicted_name]
  by (simp only:) 

text \<open>
  C3, at a failing input. The directory holds \<open>a.zlog\<close>, observed at 58000, and
  \<open>b.zlog\<close>, observed at 59000, and the cutoff is 58500. The round of \<open>b.zlog\<close>
  appends the \<open>None\<close> that \<open>midprocess\<close> returns, \<open>vstack\<close> then raises \<open>TypeError\<close>,
  and the row of \<open>a.zlog\<close>, which is returned when \<open>a.zlog\<close> is alone, is lost.
\<close>

theorem read_mmt_cutoff_file_raises:
  "heliocentric_correction (example_world [''a.zlog'', ''b.zlog'']) ''obs/b.fits.gz''
     ''mmt'' ''RA'' ''DEC'' ''MJD'' = Inr (2, 59000) \<and>
   read_one (example_world [''a.zlog'', ''b.zlog'']) ''obs'' ''.zlog'' (names_of usecols_mmt 11)
     (exclude_names_of (names_of usecols_mmt 11)) [] (Some cuts_mmt)
     (Some (midprocess_mmt (example_world [''a.zlog'', ''b.zlog'']) ''obs'' (Some 58500)))
     ''b.zlog'' = Append None \<and>
   read_mmt (example_world [''a.zlog'', ''b.zlog'']) ''obs'' (Some 58500) = (Inl TypeError, []) \<and>
   read_mmt (example_world [''a.zlog'']) ''obs'' (Some 58500) =
     (Inr [(''RA'', [Num 150]), (''DEC'', [Num 20]), (''SPEC_Z'', [Num 3]),
           (''SPEC_Z_ERR'', [Num 0]), (''ZQUALITY'', [Num 4]), (''SPECOBJID'', [Str ''a1'']),
           (''MASKNAME'', [Str ''a.zlog'']), (''HELIO_CORR'', [Bool True]),
           (''TELNAME'', [Str ''MMT''])], [])"
  by code_simp

text \<open>
  C4, at a failing input. With an unreadable \<open>c.zlog\<close>, the file \<open>a.zlog\<close> that
  contributes a row and the file \<open>b.zlog\<close> observed after the cutoff, the reader
  raises although a file contributes rows. Without \<open>b.zlog\<close> it returns the row
  of \<open>a.zlog\<close> with one warning, and with \<open>c.zlog\<close> alone it raises.
\<close>

theorem reader_raises_with_a_contributing_file:
  "read_mmt (example_world [''c.zlog'', ''a.zlog'', ''b.zlog'']) ''obs'' (Some 58500) =
     (Inl TypeError, [SkippedCouldNotRead ''obs'' ''c.zlog'' IOError]) \<and>
   read_mmt (example_world [''c.zlog'', ''a.zlog'']) ''obs'' (Some 58500) =
     (Inr [(''RA'', [Num 150]), (''DEC'', [Num 20]), (''SPEC_Z'', [Num 3]),
           (''SPEC_Z_ERR'', [Num 0]), (''ZQUALITY'', [Num 4]), (''SPECOBJID'', [Str ''a1'']),
           (''MASKNAME'', [Str ''a.zlog'']), (''HELIO_CORR'', [Bool True]),
           (''TELNAME'', [Str ''MMT''])],
      [SkippedCouldNotRead ''obs'' ''c.zlog'' IOError]) \<and>
   read_mmt (example_world [''c.zlog'']) ''obs'' (Some 58500) =
     (Inl (ValueError ''no values provided to stack.''),
      [SkippedCouldNotRead ''obs'' ''c.zlog'' IOError])"
  by code_simp

section \<open>Properties of the SDSS query\<close>

subsection \<open>Substrings\<close>

text \<open>\<open>sub in s\<close> says that \<open>sub\<close> is a contiguous part of \<open>s\<close>.\<close>

lemma str_contains_sublist: "str_contains w s \<longleftrightarrow> sublist w s"
  by (induction s) (auto simp: sublist_Cons_right)

lemma contains_suffix: "suffix t s \<Longrightarrow> str_contains w t \<Longrightarrow> str_contains w s"
  unfolding str_contains_sublist suffix_def sublist_def by (metis append.assoc)

lemma contains_prefix: "prefix t s \<Longrightarrow> str_contains w t \<Longrightarrow> str_contains w s"
  unfolding str_contains_sublist prefix_def sublist_def by (metis append.assoc)

lemma contains_longer: "str_contains (w @ v) s \<Longrightarrow> str_contains w s"
  unfolding str_contains_sublist sublist_def by (metis append.assoc)

text \<open>
  A text cannot lie across a block of characters it does not contain: it is found in
  the part before the block or in the part after it.
\<close>

lemma prefix_blocked:
  assumes "x \<noteq> []" and "set x \<inter> set w = {}"
  shows "prefix w (a @ x @ b) \<longleftrightarrow> prefix w a"
  using assms(2)
proof (induction a arbitrary: w)
  case Nil
  obtain x0 x' where x: "x = x0 # x'" using assms(1) by (cases x) auto
  show ?case using Nil by (cases w) (auto simp: x)
next
  case (Cons a0 a)
  show ?case
  proof (cases w)
    case Nil
    then show ?thesis by simp
  next
    case (Cons w0 w')
    then have "set x \<inter> set w' = {}" using Cons.prems by auto
    from Cons.IH [OF this] show ?thesis by (simp add: Cons)
  qed
qed

lemma contains_after_block:
  "set x \<inter> set w = {} \<Longrightarrow> str_contains w (x @ b) \<longleftrightarrow> w = [] \<or> str_contains w b"
proof (induction x)
  case Nil
  show ?case by (cases b) (auto simp: str_contains_sublist)
next
  case (Cons x0 x)
  have "prefix w (x0 # x @ b) \<longleftrightarrow> w = []"
    using Cons.prems by (cases w) auto
  with Cons show ?case by auto
qed

lemma contains_skip:
  assumes "x \<noteq> []" and "set x \<inter> set w = {}"
  shows "str_contains w (a @ x @ b) \<longleftrightarrow> str_contains w a \<or> str_contains w b"
proof (induction a)
  case Nil
  show ?case using contains_after_block [OF assms(2), of b] by auto
next
  case (Cons a0 a)
  have "prefix w ((a0 # a) @ x @ b) \<longleftrightarrow> prefix w (a0 # a)"
    by (rule prefix_blocked [OF assms])
  with Cons show ?case by auto
qed

lemma contains_unlines:
  assumes "w \<noteq> []" and "CHR 0x0A \<notin> set w"
  shows "str_contains w (unlines ls @ rest) \<longleftrightarrow> list_ex (str_contains w) ls \<or> str_contains w rest"
proof (induction ls)
  case Nil
  show ?case by (simp add: unlines_def)
next
  case (Cons l ls)
  have "unlines (l # ls) @ rest = l @ newline @ (unlines ls @ rest)"
    by (simp add: unlines_def)
  moreover have "str_contains w (l @ newline @ (unlines ls @ rest)) \<longleftrightarrow>
      str_contains w l \<or> str_contains w (unlines ls @ rest)"
    using assms by (intro contains_skip) (simp_all add: newline_def)
  ultimately show ?case using Cons by simp
qed

text \<open>
  Collapsing white space creates no text that is free of white space: what is found
  afterwards was there before.
\<close>

lemma prefix_collapse:
  "\<forall>c\<in>set w. \<not> is_space c \<Longrightarrow> prefix w (collapse_ws s) \<Longrightarrow> prefix w s"
proof (induction s arbitrary: w rule: collapse_ws.induct)
  case 1
  then show ?case by simp
next
  case (2 c cs)
  show ?case
  proof (cases w)
    case Nil
    then show ?thesis by simp
  next
    case (Cons w0 w')
    show ?thesis
    proof (cases "is_space c")
      case True
      with 2(4) Cons have "w0 = CHR '' ''" by simp
      with 2(3) Cons show ?thesis by (simp add: is_space_def)
    next
      case False
      with 2(4) Cons have "w0 = c" "prefix w' (collapse_ws cs)" by simp_all
      moreover have "\<forall>c\<in>set w'. \<not> is_space c" using 2(3) Cons by simp
      ultimately show ?thesis using 2(2) [OF False] Cons by simp
    qed
  qed
qed

lemma contains_collapse:
  "w \<noteq> [] \<Longrightarrow> \<forall>c\<in>set w. \<not> is_space c \<Longrightarrow> str_contains w (collapse_ws s) \<Longrightarrow> str_contains w s"
proof (induction s rule: collapse_ws.induct)
  case 1
  then show ?case by simp
next
  case (2 c cs)
  show ?case
  proof (cases "is_space c")
    case True
    have "\<not> prefix w (CHR '' '' # collapse_ws (dropWhile is_space cs))"
      using 2(3,4) by (cases w) (auto simp: is_space_def)
    with 2(5) True have "str_contains w (collapse_ws (dropWhile is_space cs))" by simp
    then have "str_contains w (dropWhile is_space cs)"
      using 2(1) [OF True 2(3,4)] by simp
    then have "str_contains w cs"
      by (rule contains_suffix [OF suffix_dropWhile])
    then show ?thesis by simp
  next
    case False
    with 2(5) consider "prefix w (c # collapse_ws cs)" | "str_contains w (collapse_ws cs)"
      by auto
    then show ?thesis
    proof cases
      case 1
      then have "prefix w (collapse_ws (c # cs))" using False by simp
      then have "prefix w (c # cs)" by (rule prefix_collapse [OF 2(4)])
      then show ?thesis by simp
    next
      case 2
      then show ?thesis using "2.IH"(2) [OF False "2.prems"(1,2)] by simp
    qed
  qed
qed

subsection \<open>Replacement, white space and stripping\<close>

text \<open>One step of \<open>str_replace\<close>, at a hit and at a miss.\<close>

lemma replace_Nil [simp]: "old \<noteq> [] \<Longrightarrow> str_replace old new [] = []"
  by (subst str_replace.simps) simp

lemma replace_hit:
  "old \<noteq> [] \<Longrightarrow> str_replace old new (old @ s) = new @ str_replace old new s"
  by (subst str_replace.simps) simp

lemma replace_miss:
  "old \<noteq> [] \<Longrightarrow> \<not> prefix old (c # cs) \<Longrightarrow>
   str_replace old new (c # cs) = c # str_replace old new cs"
  by (subst str_replace.simps) simp

lemma comma_hit:
  "str_replace '', '' '','' (CHR '','' # CHR '' '' # cs) = CHR '','' # str_replace '', '' '','' cs"
  using replace_hit [of "'', ''" "'',''" cs] by simp

lemma comma_miss:
  "\<not> (c = CHR '','' \<and> prefix '' '' cs) \<Longrightarrow>
   str_replace '', '' '','' (c # cs) = c # str_replace '', '' '','' cs"
  by (rule replace_miss) auto

lemma comma_cases:
  obtains "s = []"
  | cs where "s = CHR '','' # CHR '' '' # cs"
  | c cs where "s = c # cs" "\<not> (c = CHR '','' \<and> prefix '' '' cs)"
proof (cases s)
  case Nil
  then show ?thesis using that by simp
next
  case (Cons c cs)
  show ?thesis
  proof (cases "c = CHR '','' \<and> prefix '' '' cs")
    case True
    then obtain cs' where "cs = CHR '' '' # cs'" by (cases cs) auto
    with True Cons show ?thesis using that(2) by simp
  next
    case False
    with Cons show ?thesis using that(3) by simp
  qed
qed

text \<open>Replacing \<open>, \<close> by a comma creates no text that is free of commas.\<close>

lemma prefix_comma_replace:
  "CHR '','' \<notin> set w \<Longrightarrow> prefix w (str_replace '', '' '','' s) \<Longrightarrow> prefix w s"
proof (induction s arbitrary: w rule: length_induct)
  case (1 s)
  show ?case
  proof (cases s rule: comma_cases)
    case 1
    with "1.prems" show ?thesis by simp
  next
    case (2 cs)
    with "1.prems" show ?thesis by (cases w) (auto simp: comma_hit)
  next
    case (3 c cs)
    show ?thesis
    proof (cases w)
      case Nil
      then show ?thesis by simp
    next
      case (Cons w0 w')
      with "1.prems" 3 have "w0 = c" "prefix w' (str_replace '', '' '','' cs)" "CHR '','' \<notin> set w'"
        by (simp_all add: comma_miss)
      then show ?thesis
        using "1.IH" 3(1) Cons by simp
    qed
  qed
qed

lemma contains_comma_replace:
  "w \<noteq> [] \<Longrightarrow> CHR '','' \<notin> set w \<Longrightarrow> str_contains w (str_replace '', '' '','' s) \<Longrightarrow>
   str_contains w s"
proof (induction s rule: length_induct)
  case (1 s)
  show ?case
  proof (cases s rule: comma_cases)
    case 1
    with "1.prems" show ?thesis by simp
  next
    case (2 cs)
    have "\<not> prefix w (CHR '','' # str_replace '', '' '','' cs)"
      using "1.prems"(1,2) by (cases w) auto
    with "1.prems"(3) 2 have "str_contains w (str_replace '', '' '','' cs)"
      by (simp add: comma_hit)
    then have "str_contains w cs"
      using "1.IH" 2 "1.prems"(1,2) by simp
    then show ?thesis by (simp add: 2)
  next
    case (3 c cs)
    from "1.prems"(3) consider "prefix w (str_replace '', '' '','' s)"
      | "str_contains w (str_replace '', '' '','' cs)"
      by (auto simp: 3 comma_miss)
    then show ?thesis
    proof cases
      case 1
      then have "prefix w s" by (rule prefix_comma_replace [OF "1.prems"(2)])
      then show ?thesis by (simp add: 3(1))
    next
      case 2
      then have "str_contains w cs"
        using "1.IH" 3(1) "1.prems"(1,2) by simp
      then show ?thesis by (simp add: 3(1))
    qed
  qed
qed

text \<open>
  Collapsing, stripping and replacing work on the two sides of a character that is
  neither white space nor a comma independently.
\<close>

lemma collapse_append:
  "\<not> is_space c \<Longrightarrow> collapse_ws (a @ c # b) = collapse_ws a @ c # collapse_ws b"
proof (induction a rule: collapse_ws.induct)
  case 1
  then show ?case by simp
next
  case (2 a0 a)
  then show ?case by (simp add: dropWhile_append3)
qed

lemma collapse_clean: "\<forall>c\<in>set p. \<not> is_space c \<Longrightarrow> collapse_ws (p @ s) = p @ collapse_ws s"
  by (induction p) auto

lemma strip_append:
  "\<not> is_space c \<Longrightarrow> \<not> is_space d \<Longrightarrow>
   strip (u @ c # m @ d # v) = dropWhile is_space u @ c # m @ d # rev (dropWhile is_space (rev v))"
  by (simp add: strip_def dropWhile_append3)

lemma comma_replace_append:
  "c \<noteq> CHR '' '' \<Longrightarrow>
   str_replace '', '' '','' (u @ c # b) = str_replace '', '' '','' u @ str_replace '', '' '','' (c # b)"
proof (induction u rule: length_induct)
  case (1 u)
  show ?case
  proof (cases u rule: comma_cases)
    case 1
    then show ?thesis by simp
  next
    case (2 cs)
    then show ?thesis using "1.IH" "1.prems" by (simp add: comma_hit)
  next
    case (3 u0 cs)
    have "\<not> (u0 = CHR '','' \<and> prefix '' '' (cs @ c # b))"
      using 3(2) "1.prems" by (cases cs) auto
    then show ?thesis
      using "1.IH" "1.prems" 3 by (simp add: comma_miss)
  qed
qed

lemma comma_replace_clean:
  "CHR '','' \<notin> set p \<Longrightarrow> str_replace '', '' '','' (p @ s) = p @ str_replace '', '' '','' s"
  by (induction p) (auto simp: comma_miss)

lemma contains3_append:
  "str_contains [x, y, z] (a @ b) \<Longrightarrow>
   str_contains [x, y, z] a \<or> str_contains [x, y, z] b \<or> (b \<noteq> [] \<and> (hd b = y \<or> hd b = z))"
proof (induction a)
  case Nil
  then show ?case by simp
next
  case (Cons a0 a)
  from Cons.prems consider "prefix [x, y, z] (a0 # a @ b)" | "str_contains [x, y, z] (a @ b)"
    by auto
  then show ?case
  proof cases
    case 1
    show ?thesis
    proof (cases a)
      case Nil
      with 1 show ?thesis by (cases b) auto
    next
      case (Cons a1 a')
      show ?thesis
      proof (cases a')
        case Nil
        with 1 Cons show ?thesis by (cases b) auto
      next
        case (Cons a2 a'')
        with 1 \<open>a = a1 # a'\<close> show ?thesis by auto
      qed
    qed
  next
    case 2
    from Cons.IH [OF this] show ?thesis by auto
  qed
qed

lemma remove_after_clean:
  assumes "prefix ''INT'' old" and "\<not> str_contains ''INT'' a"
  shows "str_replace old new (a @ old @ b) = a @ new @ str_replace old new b"
  using assms(2)
proof (induction a)
  case Nil
  have "old \<noteq> []" using assms(1) by auto
  then show ?case by (simp add: replace_hit)
next
  case (Cons a0 a)
  have ne: "old \<noteq> []" using assms(1) by auto
  obtain rest where old: "old = CHR ''I'' # CHR ''N'' # CHR ''T'' # rest"
    using assms(1) by (auto simp: prefix_def)
  have "\<not> prefix old (a0 # a @ old @ b)"
  proof
    assume p: "prefix old (a0 # a @ old @ b)"
    show False
    proof (cases a)
      case Nil
      with p old show ?thesis by simp
    next
      case (Cons a1 a')
      show ?thesis
      proof (cases a')
        case Nil
        with p old Cons show ?thesis by simp
      next
        case (Cons a2 a'')
        with p old \<open>a = a1 # a'\<close> have "prefix ''INT'' (a0 # a)" by simp
        with Cons.prems show ?thesis by simp
      qed
    qed
  qed
  moreover have "\<not> str_contains ''INT'' a" using Cons.prems by simp
  ultimately show ?case
    using Cons.IH ne by (simp add: replace_miss)
qed

lemma dropWhile_append_clean:
  "ys = [] \<or> \<not> P (hd ys) \<Longrightarrow> dropWhile P (xs @ ys) = dropWhile P xs @ ys"
proof (induction xs)
  case Nil
  then show ?case by (cases ys) auto
next
  case (Cons x xs)
  then show ?case by simp
qed

lemma rstrip_clean: "\<forall>c\<in>set p. \<not> is_space c \<Longrightarrow> rstrip (p @ v) = p @ rstrip v"
proof -
  assume a: "\<forall>c\<in>set p. \<not> is_space c"
  have "rev p = [] \<or> \<not> is_space (hd (rev p))"
    using a by (cases "rev p") (auto simp: hd_rev last_in_set)
  then show ?thesis
    by (simp add: rstrip_def dropWhile_append_clean)
qed

lemma strip_rstrip:
  "\<not> is_space c \<Longrightarrow> \<not> is_space d \<Longrightarrow>
   strip (u @ c # m @ d # v) = dropWhile is_space u @ c # m @ d # rstrip v"
  by (simp add: strip_append rstrip_def)

subsection \<open>The query text around the clause \<open>INTO mydb.\<close>\<close>

text \<open>
  The formatted template is the text before the clause, the clause with the table
  name, and the text after it. No line before the clause holds \<open>INT\<close>, and
  neither do the formatted numbers.
\<close>

lemma format_template_split:
  "format_template ra dec r n =
     template_before_into ra dec r @ ''INTO mydb.'' @ n @ template_after_name"
  by (simp add: format_template_def template_before_into_def template_after_name_def unlines_def)

lemma head_clean: "\<not> list_ex (str_contains ''INT'') query_template_head"
  by code_simp

lemma g_format_clean:
  "g_format_text x \<Longrightarrow> x \<noteq> [] \<and> set x \<inter> set ''INT'' = {}"
  by (auto simp: g_format_text_def)

lemma before_into_clean:
  assumes "g_format_text ra" and "g_format_text dec" and "g_format_text r"
  shows "\<not> str_contains ''INT'' (template_before_into ra dec r)"
proof -
  let ?K = "'') n, PhotoPrimary p'' @ newline @ ''        ''"
  let ?F = "''        FROM dbo.fGetNearbyObjEq(''"
  have k: "\<not> str_contains ''INT'' ?K" and f: "\<not> str_contains ''INT'' ?F"
    and c: "\<not> str_contains ''INT'' '', ''"
    by (simp_all add: newline_def)
  have 1: "\<not> str_contains ''INT'' ('', '' @ r @ ?K)"
    using contains_skip [of r "''INT''" "'', ''" ?K] g_format_clean [OF assms(3)] k c by blast
  have 2: "\<not> str_contains ''INT'' ('', '' @ dec @ ('', '' @ r @ ?K))"
    using contains_skip [of dec "''INT''" "'', ''" "'', '' @ r @ ?K"] g_format_clean [OF assms(2)] 1 c
    by blast
  have 3: "\<not> str_contains ''INT'' (?F @ ra @ ('', '' @ dec @ ('', '' @ r @ ?K)))"
    using contains_skip [of ra "''INT''" ?F "'', '' @ dec @ ('', '' @ r @ ?K)"]
      g_format_clean [OF assms(1)] 2 f
    by blast
  have 4: "\<not> str_contains ''INT'' (unlines query_template_head @
              (?F @ ra @ ('', '' @ dec @ ('', '' @ r @ ?K))))"
    using contains_unlines [of "''INT''" query_template_head] 3 head_clean by simp
  have 5: "\<not> str_contains ''INT'' ([] @ newline @ (unlines query_template_head @
              (?F @ ra @ ('', '' @ dec @ ('', '' @ r @ ?K)))))"
    using contains_skip [of newline "''INT''" "[]"] 4 by (simp add: newline_def)
  then show ?thesis
    by (simp add: template_before_into_def)
qed

text \<open>
  The query before the clause is removed: the clause with the name stands between
  the processed text before it and the processed text after it.
\<close>

lemma query_text:
  assumes "\<forall>c\<in>set n. \<not> is_space c \<and> c \<noteq> CHR '',''"
  shows "str_replace '', '' '','' (strip (collapse_ws (format_template ra dec r n))) =
         str_replace '', '' '','' (dropWhile is_space (collapse_ws (template_before_into ra dec r)))
         @ ''INTO mydb.'' @ n @
         str_replace '', '' '','' (rstrip (collapse_ws template_after_name))"
proof -
  define B where "B = template_before_into ra dec r"
  define T where "T = template_after_name"
  define R where "R = rstrip (collapse_ws T)"
  have sp: "\<forall>c\<in>set n. \<not> is_space c" and cm: "CHR '','' \<notin> set n"
    using assms by auto
  have i: "\<not> is_space CHR ''I''" and d: "\<not> is_space CHR ''.''"
    by (simp_all add: is_space_def)
  have f: "format_template ra dec r n = B @ CHR ''I'' # (''NTO mydb.'' @ n @ T)"
    by (simp add: format_template_split B_def T_def)
  have c1: "collapse_ws (B @ CHR ''I'' # (''NTO mydb.'' @ n @ T)) =
        collapse_ws B @ CHR ''I'' # collapse_ws (''NTO mydb.'' @ n @ T)"
    by (rule collapse_append [OF i])
  have c2: "collapse_ws (''NTO mydb.'' @ n @ T) = ''NTO'' @ CHR '' '' # collapse_ws (''mydb.'' @ n @ T)"
    by (simp add: is_space_def)
  have c3: "collapse_ws (''mydb.'' @ n @ T) = ''mydb'' @ CHR ''.'' # collapse_ws (n @ T)"
    by (simp add: is_space_def)
  have c4: "collapse_ws (n @ T) = n @ collapse_ws T"
    by (rule collapse_clean [OF sp])
  have c: "collapse_ws (format_template ra dec r n) =
        collapse_ws B @ CHR ''I'' # ''NTO mydb'' @ CHR ''.'' # (n @ collapse_ws T)"
    unfolding f c1 c2 c3 c4 by simp
  have s: "strip (collapse_ws (format_template ra dec r n)) =
        dropWhile is_space (collapse_ws B) @ CHR ''I'' # ''NTO mydb'' @ CHR ''.'' # (n @ R)"
    unfolding c strip_rstrip [OF i d] rstrip_clean [OF sp] R_def ..
  have "CHR '','' \<notin> set (''INTO mydb.'' @ n)"
    using cm by simp
  then have r: "str_replace '', '' '','' ((''INTO mydb.'' @ n) @ R) =
      (''INTO mydb.'' @ n) @ str_replace '', '' '','' R"
    by (rule comma_replace_clean)
  have "str_replace '', '' '','' (strip (collapse_ws (format_template ra dec r n))) =
      str_replace '', '' '','' (dropWhile is_space (collapse_ws B)) @
      str_replace '', '' '','' (CHR ''I'' # ''NTO mydb'' @ CHR ''.'' # (n @ R))"
    unfolding s by (rule comma_replace_append) simp
  then show ?thesis
    using r by (simp add: B_def T_def R_def)
qed

lemma after_name_value:
  "str_replace '', '' '','' (rstrip (collapse_ws template_after_name)) =
   '' LEFT JOIN SpecObj s ON p.specObjID = s.specObjID LEFT JOIN PHOTOZ pz ON p.ObjID = pz.ObjID LEFT join WISE_XMATCH as wx on p.objid = wx.sdss_objid LEFT join wise_ALLSKY as w on wx.wise_cntr = w.cntr WHERE n.objID = p.objID''"
  by code_simp

lemma before_text_clean:
  assumes "g_format_text ra" and "g_format_text dec" and "g_format_text r"
  shows "\<not> str_contains ''INT''
           (str_replace '', '' '','' (dropWhile is_space (collapse_ws (template_before_into ra dec r))))"
proof
  define B where "B = template_before_into ra dec r"
  have w: "''INT'' \<noteq> []" "CHR '','' \<notin> set ''INT''" "\<forall>c\<in>set ''INT''. \<not> is_space c"
    by (simp_all add: is_space_def)
  assume "str_contains ''INT''
           (str_replace '', '' '','' (dropWhile is_space (collapse_ws (template_before_into ra dec r))))"
  then have "str_contains ''INT'' (str_replace '', '' '','' (dropWhile is_space (collapse_ws B)))"
    by (simp only: B_def)
  then have "str_contains ''INT'' (dropWhile is_space (collapse_ws B))"
    by (rule contains_comma_replace [OF w(1) w(2)])
  then have "str_contains ''INT'' (collapse_ws B)"
    by (rule contains_suffix [OF suffix_dropWhile])
  then have "str_contains ''INT'' B"
    by (rule contains_collapse [OF w(1) w(3)])
  with before_into_clean [OF assms] show False
    by (simp only: B_def)
qed

lemma keep_letters_all: "list_all is_ascii_letter (keep_letters s)"
  by (simp add: keep_letters_def list_all_iff)

lemma letter_clean: "is_ascii_letter c \<Longrightarrow> \<not> is_space c \<and> c \<noteq> CHR '',''"
proof -
  have "\<forall>c. is_ascii_letter c \<longrightarrow> \<not> is_space c \<and> c \<noteq> CHR '',''"
    by code_simp
  then show "is_ascii_letter c \<Longrightarrow> \<not> is_space c \<and> c \<noteq> CHR '',''"
    by simp
qed

lemma rest_clean:
  "\<not> str_contains ''INT'' ''LEFT JOIN SpecObj s ON p.specObjID = s.specObjID LEFT JOIN PHOTOZ pz ON p.ObjID = pz.ObjID LEFT join WISE_XMATCH as wx on p.objid = wx.sdss_objid LEFT join wise_ALLSKY as w on wx.wise_cntr = w.cntr WHERE n.objID = p.objID''"
  by code_simp

lemma no_int_replace:
  assumes "prefix ''INT'' old" and "\<not> str_contains ''INT'' s"
  shows "str_replace old new s = s"
  using assms(2)
proof (induction s)
  case Nil
  have "old \<noteq> []" using assms(1) by auto
  then show ?case by simp
next
  case (Cons c cs)
  have ne: "old \<noteq> []" using assms(1) by auto
  have "\<not> prefix ''INT'' (c # cs)" using Cons.prems by simp
  then have "\<not> prefix old (c # cs)"
    using assms(1) prefix_order.trans by blast
  moreover have "\<not> str_contains ''INT'' cs" using Cons.prems by simp
  ultimately show ?case
    using Cons.IH ne by (simp add: replace_miss)
qed

text \<open>The result of \<open>construct_query\<close> with a table name and without one.\<close>

lemma construct_query_some:
  assumes "\<forall>c\<in>set n. \<not> is_space c \<and> c \<noteq> CHR '',''"
  shows "construct_query F ra dec radius (Some n) =
     str_replace '', '' '','' (dropWhile is_space
        (collapse_ws (template_before_into (F ra) (F dec) (F (radius * 60))))) @
     ''INTO mydb.'' @ n @ str_replace '', '' '','' (rstrip (collapse_ws template_after_name))"
  unfolding construct_query_def Let_def by (simp add: query_text [OF assms])

lemma construct_query_none:
  assumes "g_format_text (F ra)" and "g_format_text (F dec)" and "g_format_text (F (radius * 60))"
  shows "construct_query F ra dec radius None =
     str_replace '', '' '','' (dropWhile is_space
        (collapse_ws (template_before_into (F ra) (F dec) (F (radius * 60))))) @
     ''LEFT JOIN SpecObj s ON p.specObjID = s.specObjID LEFT JOIN PHOTOZ pz ON p.ObjID = pz.ObjID LEFT join WISE_XMATCH as wx on p.objid = wx.sdss_objid LEFT join wise_ALLSKY as w on wx.wise_cntr = w.cntr WHERE n.objID = p.objID''"
proof -
  define X where "X = str_replace '', '' '','' (dropWhile is_space
        (collapse_ws (template_before_into (F ra) (F dec) (F (radius * 60)))))"
  define R where "R = ''LEFT JOIN SpecObj s ON p.specObjID = s.specObjID LEFT JOIN PHOTOZ pz ON p.ObjID = pz.ObjID LEFT join WISE_XMATCH as wx on p.objid = wx.sdss_objid LEFT join wise_ALLSKY as w on wx.wise_cntr = w.cntr WHERE n.objID = p.objID''"
  define old where "old = ''INTO mydb.'' @ ''TO_BE_REMOVED'' @ '' ''"
  have a: "str_replace '', '' '','' (rstrip (collapse_ws template_after_name)) = '' '' @ R"
    unfolding R_def after_name_value by simp
  have clean: "\<forall>c\<in>set ''TO_BE_REMOVED''. \<not> is_space c \<and> c \<noteq> CHR '',''"
    by (simp add: is_space_def)
  have x: "\<not> str_contains ''INT'' X"
    unfolding X_def by (rule before_text_clean [OF assms])
  have r: "\<not> str_contains ''INT'' R"
    unfolding R_def by (rule rest_clean)
  have p: "prefix ''INT'' old"
    by (simp add: old_def)
  have "construct_query F ra dec radius None =
          str_replace old [] (str_replace '', '' '','' (strip (collapse_ws
            (format_template (F ra) (F dec) (F (radius * 60)) ''TO_BE_REMOVED''))))"
    unfolding construct_query_def Let_def old_def by simp
  also have "\<dots> = str_replace old [] (X @ ''INTO mydb.'' @ ''TO_BE_REMOVED'' @ ('' '' @ R))"
    unfolding query_text [OF clean] a X_def ..
  also have "\<dots> = str_replace old [] (X @ old @ R)"
    by (simp add: old_def)
  also have "\<dots> = X @ [] @ str_replace old [] R"
    by (rule remove_after_clean [OF p x])
  also have "\<dots> = X @ R"
    by (simp add: no_int_replace [OF p r])
  finally show ?thesis
    unfolding X_def R_def .
qed

lemma no_into_after_removal:
  assumes "\<not> str_contains ''INT'' X"
  shows "\<not> str_contains ''INTO mydb.''
     (X @ ''LEFT JOIN SpecObj s ON p.specObjID = s.specObjID LEFT JOIN PHOTOZ pz ON p.ObjID = pz.ObjID LEFT join WISE_XMATCH as wx on p.objid = wx.sdss_objid LEFT join wise_ALLSKY as w on wx.wise_cntr = w.cntr WHERE n.objID = p.objID'')"
proof
  define R where "R = ''LEFT JOIN SpecObj s ON p.specObjID = s.specObjID LEFT JOIN PHOTOZ pz ON p.ObjID = pz.ObjID LEFT join WISE_XMATCH as wx on p.objid = wx.sdss_objid LEFT join wise_ALLSKY as w on wx.wise_cntr = w.cntr WHERE n.objID = p.objID''"
  have r: "\<not> str_contains ''INT'' R"
    unfolding R_def by (rule rest_clean)
  have h: "hd R = CHR ''L''"
    by (simp add: R_def)
  assume "str_contains ''INTO mydb.''
     (X @ ''LEFT JOIN SpecObj s ON p.specObjID = s.specObjID LEFT JOIN PHOTOZ pz ON p.ObjID = pz.ObjID LEFT join WISE_XMATCH as wx on p.objid = wx.sdss_objid LEFT join wise_ALLSKY as w on wx.wise_cntr = w.cntr WHERE n.objID = p.objID'')"
  then have "str_contains (''INT'' @ ''O mydb.'') (X @ R)"
    by (simp add: R_def)
  then have "str_contains ''INT'' (X @ R)"
    by (rule contains_longer)
  then have "str_contains ''INT'' X \<or> str_contains ''INT'' R \<or>
             (R \<noteq> [] \<and> (hd R = CHR ''N'' \<or> hd R = CHR ''T''))"
    by (rule contains3_append)
  with assms r h show False by simp
qed

text \<open>
  C10. Let the three numbers be formatted to texts that \<open>.10g\<close> can produce. The
  table name that \<open>SdssQuery\<close> keeps is the name it was given (or \<open>SAGA\<close> and four
  random letters when none was given) without every character that is not an
  ASCII letter, so it consists of ASCII letters only; the query holds the clause
  \<open>INTO mydb.\<close> once, followed by exactly that name and a blank. When the table
  name is \<open>None\<close>, in \<open>construct_query\<close> and hence in a query built for SciServer,
  the text \<open>INTO mydb.\<close> does not occur in the query.
\<close>

theorem sdss_query_table_name:
  assumes "g_format_text (F ra)" and "g_format_text (F dec)" and "g_format_text (F (radius * 60))"
  shows
    "(let q = sdss_query_init F getenv has_sciserver rnd ra dec radius name ctx user pw dflt in
        (\<forall>n. db_table_name q = Some n \<longrightarrow>
           n = keep_letters (if \<not> truthy name then ''SAGA'' @ rnd 4 else the name) \<and>
           list_all is_ascii_letter n \<and>
           (\<exists>pre post. query q = pre @ ''INTO mydb.'' @ n @ '' '' @ post \<and>
              \<not> str_contains ''INTO mydb.'' pre)) \<and>
        (db_table_name q = None \<longrightarrow> \<not> str_contains ''INTO mydb.'' (query q))) \<and>
     \<not> str_contains ''INTO mydb.'' (construct_query F ra dec radius None)"
proof -
  define X where "X = str_replace '', '' '','' (dropWhile is_space
        (collapse_ws (template_before_into (F ra) (F dec) (F (radius * 60)))))"
  define sci where "sci = (dflt \<and> has_sciserver \<and> truthy (py_or user (getenv ''SCISERVER_USER'')) \<and>
        truthy (py_or pw (getenv ''SCISERVER_PASS'')))"
  define given where "given = (if \<not> truthy name then ''SAGA'' @ rnd 4 else the name)"
  define tn where "tn = (if sci then None else Some (keep_letters given))"
  define q where "q = sdss_query_init F getenv has_sciserver rnd ra dec radius name ctx user pw dflt"
  have db: "db_table_name q = tn" and qq: "query q = construct_query F ra dec radius tn"
    by (simp_all add: q_def sdss_query_init_def Let_def tn_def sci_def given_def)
  have x: "\<not> str_contains ''INT'' X"
    unfolding X_def by (rule before_text_clean [OF assms])
  have x': "\<not> str_contains ''INTO mydb.'' X"
    using x contains_longer [of "''INT''" "''O mydb.''" X] by auto
  have none: "\<not> str_contains ''INTO mydb.'' (construct_query F ra dec radius None)"
    unfolding construct_query_none [OF assms] X_def [symmetric]
    by (rule no_into_after_removal [OF x])
  have some: "\<exists>pre post. construct_query F ra dec radius (Some n) = pre @ ''INTO mydb.'' @ n @ '' '' @ post \<and>
              \<not> str_contains ''INTO mydb.'' pre" if "list_all is_ascii_letter n" for n
  proof -
    have "\<forall>c\<in>set n. \<not> is_space c \<and> c \<noteq> CHR '',''"
      using that letter_clean by (auto simp: list_all_iff)
    from construct_query_some [OF this, of F ra dec radius]
    have "construct_query F ra dec radius (Some n) = X @ ''INTO mydb.'' @ n @ '' '' @
       ''LEFT JOIN SpecObj s ON p.specObjID = s.specObjID LEFT JOIN PHOTOZ pz ON p.ObjID = pz.ObjID LEFT join WISE_XMATCH as wx on p.objid = wx.sdss_objid LEFT join wise_ALLSKY as w on wx.wise_cntr = w.cntr WHERE n.objID = p.objID''"
      unfolding after_name_value X_def by simp
    with x' show ?thesis by blast
  qed
  have "(\<forall>n. db_table_name q = Some n \<longrightarrow>
           n = keep_letters given \<and> list_all is_ascii_letter n \<and>
           (\<exists>pre post. query q = pre @ ''INTO mydb.'' @ n @ '' '' @ post \<and>
              \<not> str_contains ''INTO mydb.'' pre)) \<and>
        (db_table_name q = None \<longrightarrow> \<not> str_contains ''INTO mydb.'' (query q))"
  proof (cases sci)
    case True
    then have "tn = None" by (simp add: tn_def)
    then show ?thesis using none by (simp add: db qq)
  next
    case False
    then have t: "tn = Some (keep_letters given)" by (simp add: tn_def)
    show ?thesis
      using some [OF keep_letters_all, of given] by (simp add: db qq t keep_letters_all)
  qed
  then show ?thesis
    using none unfolding Let_def q_def given_def by blast
qed

lemma example_format_text:
  "g_format_text (example_format_10g 150)" "g_format_text (example_format_10g (5 / 2))"
  "g_format_text (example_format_10g (1 * 60))"
  by (simp_all add: example_format_10g_def g_format_text_def)

lemma example_table_name:
  "db_table_name (sdss_query_init example_format_10g (\<lambda>v. None) False (\<lambda>k. ''abcd'') 150 (5 / 2) 1
     (Some ''my_table 2'') ''DR14'' None None True) = Some ''mytable''"
  by (simp add: sdss_query_init_def Let_def py_or_def truthy_def keep_letters_def is_ascii_letter_def)

theorem sdss_query_table_name_witness:
  "g_format_text (example_format_10g 150) \<and> g_format_text (example_format_10g (5 / 2)) \<and>
   g_format_text (example_format_10g (1 * 60)) \<and>
   db_table_name (sdss_query_init example_format_10g (\<lambda>v. None) False (\<lambda>k. ''abcd'') 150 (5 / 2) 1
     (Some ''my_table 2'') ''DR14'' None None True) = Some ''mytable'' \<and>
   list_all is_ascii_letter ''mytable'' \<and>
   (\<exists>pre post.
      query (sdss_query_init example_format_10g (\<lambda>v. None) False (\<lambda>k. ''abcd'') 150 (5 / 2) 1
        (Some ''my_table 2'') ''DR14'' None None True) = pre @ ''INTO mydb.'' @ ''mytable'' @ '' '' @ post \<and>
      \<not> str_contains ''INTO mydb.'' pre) \<and>
   \<not> str_contains ''INTO mydb.'' (construct_query example_format_10g 150 (5 / 2) 1 None)"
proof -
  note t = sdss_query_table_name [OF example_format_text, of "\<lambda>v. None" False "\<lambda>k. ''abcd''"
      "Some ''my_table 2''" "''DR14''" None None True, unfolded Let_def]
  from t have a: "list_all is_ascii_letter ''mytable'' \<and>
      (\<exists>pre post.
      query (sdss_query_init example_format_10g (\<lambda>v. None) False (\<lambda>k. ''abcd'') 150 (5 / 2) 1
        (Some ''my_table 2'') ''DR14'' None None True) = pre @ ''INTO mydb.'' @ ''mytable'' @ '' '' @ post \<and>
      \<not> str_contains ''INTO mydb.'' pre)"
    using example_table_name by blast
  from t have b: "\<not> str_contains ''INTO mydb.'' (construct_query example_format_10g 150 (5 / 2) 1 None)"
    by blast
  show ?thesis
    using example_format_text example_table_name a b by blast
qed

end
